theory Spec2Isabelle
  imports Main "HOL-Library.Word"
begin

unbundle bit_operations_syntax

section \<open>Go values\<close>

text \<open>
  Go's \<^verbatim>\<open>int\<close> and \<^verbatim>\<open>int64\<close> are 64-bit two's-complement words (the 64-bit
  platforms); \<open>+\<close> on them wraps. A \<^verbatim>\<open>float64\<close> is carried as its IEEE-754 binary64
  bit pattern: the program only stores, copies and serialises floating-point values, it
  never computes with them. A Go \<^verbatim>\<open>string\<close> and a \<^verbatim>\<open>[]byte\<close> are byte lists.
\<close>

type_synonym go_int = "64 word"
type_synonym int64 = "64 word"
type_synonym float64 = "64 word"

definition float64_is_zero :: "float64 \<Rightarrow> bool" where
  \<comment> \<open>\<^verbatim>\<open>v.Float() == 0\<close>: plus or minus zero\<close>
  "float64_is_zero f = (f AND 0x7FFFFFFFFFFFFFFF = 0)"

definition float64_is_finite :: "float64 \<Rightarrow> bool" where
  \<comment> \<open>neither NaN nor an infinity: the exponent bits are not all ones\<close>
  "float64_is_finite f = (f AND 0x7FF0000000000000 \<noteq> 0x7FF0000000000000)"

text \<open>A dynamically typed value (\<^verbatim>\<open>interface{}\<close>) of the kinds the program inspects.\<close>

datatype any = AnyInt go_int | AnyFloat float64 | AnyString string | AnyBool bool

text \<open>
  A JSON document, as \<^verbatim>\<open>json.Marshal\<close> produces it, up to the concrete syntax: an object is
  the map from its keys to their values.
\<close>

datatype json =
    JNull
  | JBool bool
  | JInt int64
  | JFloat float64
  | JString string
  | JArray "json list"
  | JObject "string \<Rightarrow> json option"

text \<open>
  Errors are values. Each constructor is one \<^verbatim>\<open>fmt.Errorf\<close> format of the source (with the
  values it interpolates), \<^verbatim>\<open>io.EOF\<close>, or an error of the transport.
\<close>

datatype error =
    io_EOF
  | NetError string
  | InvalidIdentifier string
  | ProviderNotFound string
  | ModelUnsupported string string
  | APIKeyNotSet string
  | MarshalFailed
  | CreateRequestFailed
  | SendRequestFailed error
  | ReadBodyFailed error
  | APIReturnedError string string string
  | ParseResponseFailed
  | NoCompletionCandidates
  | ParseStreamFailed

section \<open>Vendor response schemas\<close>

text \<open>The structs each adapter decodes the vendor's response body into.\<close>

record openAIMessage =
  oaMsg_Role :: string
  oaMsg_Content :: string

record openAIResponseChoice =
  oaChoice_Index :: go_int
  oaChoice_Message :: openAIMessage
  oaChoice_FinishReason :: string

record openAIResponseUsage =
  oaUsage_PromptTokens :: go_int
  oaUsage_CompletionTokens :: go_int
  oaUsage_TotalTokens :: go_int

record openAIResponse =
  oaResp_ID :: string
  oaResp_Object :: string
  oaResp_Created :: int64
  oaResp_Model :: string
  oaResp_Choices :: "openAIResponseChoice list"
  oaResp_Usage :: openAIResponseUsage
  oaResp_SystemFingerprint :: string

record anthropicResponseContent =
  anContent_Type :: string
  anContent_Text :: string

record anthropicUsage =
  InputTokens :: go_int
  OutputTokens :: go_int

record anthropicResponse =
  anResp_ID :: string
  anResp_Type :: string
  anResp_Role :: string
  anResp_Content :: "anthropicResponseContent list"
  anResp_Model :: string
  anResp_StopReason :: string
  anResp_StopSequence :: string
  anResp_Usage :: anthropicUsage

record geminiResponsePart =
  gPart_Text :: string

record geminiResponseContent =
  gContent_Role :: string
  gContent_Parts :: "geminiResponsePart list"

record geminiCandidate =
  gCand_Content :: geminiResponseContent
  gCand_FinishReason :: string
  gCand_Index :: go_int

record geminiUsage =
  PromptTokenCount :: go_int
  CandidatesTokenCount :: go_int
  TotalTokenCount :: go_int

record geminiResponse =
  Candidates :: "geminiCandidate list"
  PromptFeedback :: "json option"
  gResp_Usage :: geminiUsage

section \<open>Canonical model (package llm)\<close>

record Message =
  Role :: string
  Content :: string

text \<open>
  A pointer field is an option (\<open>None\<close> is \<^verbatim>\<open>nil\<close>); so are the slice \<^verbatim>\<open>Stop\<close> and the maps,
  whose \<^verbatim>\<open>nil\<close> the code tests. The map \<^verbatim>\<open>LogitBias\<close>, which the program only hands on to
  the encoder, is the list of its entries.
\<close>

record CompletionRequest =
  Model :: string
  Messages :: "Message list"
  Temperature :: "float64 option"
  MaxTokens :: "go_int option"
  TopP :: "float64 option"
  FrequencyPenalty :: "float64 option"
  PresencePenalty :: "float64 option"
  Stop :: "string list option"
  Stream :: bool
  LogitBias :: "(string \<times> go_int) list option"
  User :: string
  ExtraParams :: "(string \<Rightarrow> any option) option"

record CompletionChoice =
  Index :: go_int
  ChoiceMessage :: Message
  FinishReason :: string

record CompletionUsage =
  PromptTokens :: go_int
  CompletionTokens :: go_int
  TotalTokens :: go_int

datatype raw_response =
    RawNil
  | RawOpenAI openAIResponse
  | RawAnthropic anthropicResponse
  | RawGemini geminiResponse

record CompletionResponse =
  ID :: string
  Object :: string
  Created :: int64
  RespModel :: string
  Choices :: "CompletionChoice list"
  Usage :: CompletionUsage
  SystemFingerprint :: string
  Provider :: string
  RawResponse :: raw_response

type_synonym CompletionOption = "CompletionRequest \<Rightarrow> CompletionRequest"

text \<open>The zero value of each struct, which a Go composite literal starts from.\<close>

definition zero_Message :: Message where
  "zero_Message = \<lparr>Role = [], Content = []\<rparr>"

definition zero_CompletionRequest :: CompletionRequest where
  "zero_CompletionRequest =
     \<lparr>Model = [], Messages = [], Temperature = None, MaxTokens = None, TopP = None,
      FrequencyPenalty = None, PresencePenalty = None, Stop = None, Stream = False,
      LogitBias = None, User = [], ExtraParams = None\<rparr>"

definition zero_CompletionUsage :: CompletionUsage where
  "zero_CompletionUsage = \<lparr>PromptTokens = 0, CompletionTokens = 0, TotalTokens = 0\<rparr>"

definition zero_CompletionResponse :: CompletionResponse where
  "zero_CompletionResponse =
     \<lparr>ID = [], Object = [], Created = 0, RespModel = [], Choices = [],
      Usage = zero_CompletionUsage, SystemFingerprint = [], Provider = [],
      RawResponse = RawNil\<rparr>"

subsection \<open>Options\<close>

definition WithTemperature :: "float64 \<Rightarrow> CompletionOption" where
  "WithTemperature temp = (\<lambda>req. req\<lparr>Temperature := Some temp\<rparr>)"

definition WithMaxTokens :: "go_int \<Rightarrow> CompletionOption" where
  "WithMaxTokens tokens = (\<lambda>req. req\<lparr>MaxTokens := Some tokens\<rparr>)"

definition WithTopP :: "float64 \<Rightarrow> CompletionOption" where
  "WithTopP topP = (\<lambda>req. req\<lparr>TopP := Some topP\<rparr>)"

definition WithUser :: "string \<Rightarrow> CompletionOption" where
  "WithUser user = (\<lambda>req. req\<lparr>User := user\<rparr>)"

text \<open>
  \<^verbatim>\<open>WithExtraParams\<close> creates the map when it is \<^verbatim>\<open>nil\<close> and then stores every entry of
  \<open>params\<close> into it: the entries already there stay, unless \<open>params\<close> has the same key.
\<close>

definition WithExtraParams :: "(string \<Rightarrow> any option) \<Rightarrow> CompletionOption" where
  "WithExtraParams params = (\<lambda>req.
     let m = (case ExtraParams req of None \<Rightarrow> Map.empty | Some m \<Rightarrow> m)
     in req\<lparr>ExtraParams := Some (m ++ params)\<rparr>)"

text \<open>The loop \<^verbatim>\<open>for _, opt := range opts { opt(req) }\<close>.\<close>

fun apply_options :: "CompletionOption list \<Rightarrow> CompletionRequest \<Rightarrow> CompletionRequest" where
  "apply_options [] req = req"
| "apply_options (opt # opts) req = apply_options opts (opt req)"

section \<open>The adapters: construction, name and allow-list\<close>

text \<open>
  The three packages declare the same \<^verbatim>\<open>Provider\<close> struct (the Anthropic one with an
  API version besides) and the same membership loop for \<^verbatim>\<open>SupportsModel\<close>. The HTTP
  client's only setting is its timeout, in seconds.
\<close>

record openai_Provider =
  openai_apiKey :: string
  openai_endpoint :: string
  openai_client_Timeout :: nat
  openai_modelList :: "string list"

record anthropic_Provider =
  anthropic_apiKey :: string
  anthropic_apiVersion :: string
  anthropic_endpoint :: string
  anthropic_client_Timeout :: nat
  anthropic_modelList :: "string list"

record google_Provider =
  google_apiKey :: string
  google_endpoint :: string
  google_client_Timeout :: nat
  google_modelList :: "string list"

definition defaultTimeout :: nat where
  "defaultTimeout = 30"

definition openai_defaultAPIEndpoint :: string where
  "openai_defaultAPIEndpoint = ''https://api.openai.com/v1/chat/completions''"

definition anthropic_defaultAPIEndpoint :: string where
  "anthropic_defaultAPIEndpoint = ''https://api.anthropic.com/v1/messages''"

definition anthropic_defaultAPIVersion :: string where
  "anthropic_defaultAPIVersion = ''2023-06-01''"

definition google_defaultAPIEndpoint :: string where
  "google_defaultAPIEndpoint = ''https://generativelanguage.googleapis.com/v1beta/models''"

definition openai_NewProviderWithKey :: "string \<Rightarrow> openai_Provider" where
  "openai_NewProviderWithKey apiKey =
     \<lparr>openai_apiKey = apiKey,
      openai_endpoint = openai_defaultAPIEndpoint,
      openai_client_Timeout = defaultTimeout,
      openai_modelList =
        [''gpt-4'', ''gpt-4.1'', ''gpt-4.1-2025-04-14'', ''gpt-4.1-mini'',
         ''gpt-4.1-mini-2025-04-14'', ''gpt-4.1-nano'', ''gpt-4.1-nano-2025-04-14'',
         ''gpt-4o'', ''gpt-4.5-preview'', ''gpt-4.5-preview-2025-02-27'', ''gpt-4o-mini'',
         ''gpt-4o-mini-2024-07-18'', ''o1'', ''o1-mini'', ''o3-mini'', ''o3-mini-2025-01-31'',
         ''o4-mini'', ''o4-mini-2025-04-16'', ''o1-mini-2024-09-12'', ''o1-preview'',
         ''o1-preview-2024-09-12'', ''o1-2024-12-17'', ''chatgpt-4o-latest'',
         ''gpt-4o-2024-05-13'', ''gpt-4o-2024-08-06'', ''gpt-4o-2024-11-20'',
         ''gpt-4-turbo-preview'', ''gpt-4-0613'', ''gpt-4-turbo'', ''gpt-4-turbo-2024-04-09'',
         ''gpt-4-1106-preview'', ''gpt-4-0125-preview'', ''gpt-3.5-turbo'',
         ''gpt-3.5-turbo-1106'', ''gpt-3.5-turbo-0125'', ''gpt-3.5-turbo-16k'']\<rparr>"

definition anthropic_NewProviderWithKey :: "string \<Rightarrow> anthropic_Provider" where
  "anthropic_NewProviderWithKey apiKey =
     \<lparr>anthropic_apiKey = apiKey,
      anthropic_apiVersion = anthropic_defaultAPIVersion,
      anthropic_endpoint = anthropic_defaultAPIEndpoint,
      anthropic_client_Timeout = defaultTimeout,
      anthropic_modelList =
        [''claude-3-7-sonnet-20250219'', ''claude-3-opus-20240229'',
         ''claude-3-sonnet-20240229'', ''claude-3-haiku-20240307'', ''claude-2.1'',
         ''claude-2.0'', ''claude-instant-1.2'']\<rparr>"

definition google_NewProviderWithKey :: "string \<Rightarrow> google_Provider" where
  "google_NewProviderWithKey apiKey =
     \<lparr>google_apiKey = apiKey,
      google_endpoint = google_defaultAPIEndpoint,
      google_client_Timeout = defaultTimeout,
      google_modelList =
        [''gemini-1.5-pro'', ''gemini-1.5-flash'', ''gemini-2.0-pro'', ''gemini-2.0-flash'']\<rparr>"

text \<open>
  \<^verbatim>\<open>os.Getenv\<close> on the process environment: the value of the variable, the empty string
  when it is not set.
\<close>

definition Getenv :: "(string \<Rightarrow> string option) \<Rightarrow> string \<Rightarrow> string" where
  "Getenv environ key = (case environ key of None \<Rightarrow> [] | Some v \<Rightarrow> v)"

definition openai_NewProvider :: "(string \<Rightarrow> string option) \<Rightarrow> openai_Provider" where
  "openai_NewProvider environ = openai_NewProviderWithKey (Getenv environ ''OPENAI_API_KEY'')"

definition anthropic_NewProvider :: "(string \<Rightarrow> string option) \<Rightarrow> anthropic_Provider" where
  "anthropic_NewProvider environ =
     anthropic_NewProviderWithKey (Getenv environ ''ANTHROPIC_API_KEY'')"

definition google_NewProvider :: "(string \<Rightarrow> string option) \<Rightarrow> google_Provider" where
  "google_NewProvider environ = google_NewProviderWithKey (Getenv environ ''GEMINI_API_KEY'')"

text \<open>The loop \<^verbatim>\<open>for _, m := range p.modelList { if m == model { return true } }\<close>.\<close>

fun modelList_contains :: "string list \<Rightarrow> string \<Rightarrow> bool" where
  "modelList_contains [] model = False"
| "modelList_contains (m # ms) model = (if m = model then True else modelList_contains ms model)"

definition openai_SupportsModel :: "openai_Provider \<Rightarrow> string \<Rightarrow> bool" where
  "openai_SupportsModel p model = modelList_contains (openai_modelList p) model"

definition anthropic_SupportsModel :: "anthropic_Provider \<Rightarrow> string \<Rightarrow> bool" where
  "anthropic_SupportsModel p model = modelList_contains (anthropic_modelList p) model"

definition google_SupportsModel :: "google_Provider \<Rightarrow> string \<Rightarrow> bool" where
  "google_SupportsModel p model = modelList_contains (google_modelList p) model"

text \<open>
  The interface \<^verbatim>\<open>llm.Provider\<close>, closed over the three adapters of the repository, with
  the dynamic dispatch of its pure methods.
\<close>

datatype Provider =
    OpenAI openai_Provider
  | Anthropic anthropic_Provider
  | Google google_Provider

fun Name :: "Provider \<Rightarrow> string" where
  "Name (OpenAI p) = ''openai''"
| "Name (Anthropic p) = ''anthropic''"
| "Name (Google p) = ''google''"

fun SupportsModel :: "Provider \<Rightarrow> string \<Rightarrow> bool" where
  "SupportsModel (OpenAI p) model = openai_SupportsModel p model"
| "SupportsModel (Anthropic p) model = anthropic_SupportsModel p model"
| "SupportsModel (Google p) model = google_SupportsModel p model"

section \<open>Provider registry and model identifiers (package llm)\<close>

type_synonym registry = "string \<Rightarrow> Provider option"

definition RegisterProvider :: "Provider \<Rightarrow> registry \<Rightarrow> registry" where
  "RegisterProvider provider registeredProviders = registeredProviders(Name provider \<mapsto> provider)"

definition GetProvider :: "registry \<Rightarrow> string \<Rightarrow> Provider option" where
  "GetProvider registeredProviders name = registeredProviders name"

text \<open>
  The registry after the \<^verbatim>\<open>init\<close> functions of the three adapter packages have run, each
  registering the adapter built from the process environment.
\<close>

definition init_registry :: "(string \<Rightarrow> string option) \<Rightarrow> registry" where
  "init_registry environ =
     RegisterProvider (OpenAI (openai_NewProvider environ))
       (RegisterProvider (Google (google_NewProvider environ))
         (RegisterProvider (Anthropic (anthropic_NewProvider environ)) Map.empty))"

text \<open>
  \<^verbatim>\<open>strings.Index(s, "/")\<close> and \<^verbatim>\<open>strings.SplitN(s, "/", 2)\<close>: at most one cut, at the first
  separator; a string without the separator comes back whole, as the only part.
\<close>

fun Index_slash :: "string \<Rightarrow> nat option" where
  "Index_slash [] = None"
| "Index_slash (c # s) = (if c = CHR ''/'' then Some 0 else map_option Suc (Index_slash s))"

definition SplitN_slash_2 :: "string \<Rightarrow> string list" where
  "SplitN_slash_2 s =
     (case Index_slash s of None \<Rightarrow> [s] | Some m \<Rightarrow> [take m s, drop (m + 1) s])"

definition parseModelIdentifier :: "string \<Rightarrow> error + (string \<times> string)" where
  "parseModelIdentifier modelID =
     (let parts = SplitN_slash_2 modelID
      in if length parts \<noteq> 2 then Inl (InvalidIdentifier modelID)
         else Inr (parts ! 0, parts ! 1))"

definition getProviderForModel :: "registry \<Rightarrow> string \<Rightarrow> error + (Provider \<times> string)" where
  "getProviderForModel registeredProviders modelID =
     (case parseModelIdentifier modelID of
        Inl err \<Rightarrow> Inl err
      | Inr (providerName, modelName) \<Rightarrow>
          (case registeredProviders providerName of
             None \<Rightarrow> Inl (ProviderNotFound providerName)
           | Some provider \<Rightarrow>
               if \<not> SupportsModel provider modelName
               then Inl (ModelUnsupported modelName providerName)
               else Inr (provider, modelName)))"

section \<open>Library functions the program calls\<close>

subsection \<open>Bytes and strings\<close>

definition HasPrefix :: "string \<Rightarrow> string \<Rightarrow> bool" where
  "HasPrefix s pre = (take (length pre) s = pre)"

definition TrimPrefix :: "string \<Rightarrow> string \<Rightarrow> string" where
  "TrimPrefix s pre = (if HasPrefix s pre then drop (length pre) s else s)"

fun Contains :: "string \<Rightarrow> string \<Rightarrow> bool" where
  "Contains [] substr = (substr = [])"
| "Contains (c # s) substr = (HasPrefix (c # s) substr \<or> Contains s substr)"

text \<open>
  \<^verbatim>\<open>bytes.TrimSpace\<close> removes the white space of Unicode from both ends of a UTF-8 byte
  string. These are the UTF-8 encodings of the code points with the property White_Space:
  the six of ASCII, U+0085, U+00A0, U+1680, U+2000 to U+200A, U+2028, U+2029, U+202F,
  U+205F and U+3000. No encoding is a prefix or a suffix of another.
\<close>

definition white_space :: "string list" where
  "white_space =
     [[CHR 0x09], [CHR 0x0A], [CHR 0x0B], [CHR 0x0C], [CHR 0x0D], [CHR 0x20],
      [CHR 0xC2, CHR 0x85], [CHR 0xC2, CHR 0xA0],
      [CHR 0xE1, CHR 0x9A, CHR 0x80],
      [CHR 0xE2, CHR 0x80, CHR 0x80], [CHR 0xE2, CHR 0x80, CHR 0x81],
      [CHR 0xE2, CHR 0x80, CHR 0x82], [CHR 0xE2, CHR 0x80, CHR 0x83],
      [CHR 0xE2, CHR 0x80, CHR 0x84], [CHR 0xE2, CHR 0x80, CHR 0x85],
      [CHR 0xE2, CHR 0x80, CHR 0x86], [CHR 0xE2, CHR 0x80, CHR 0x87],
      [CHR 0xE2, CHR 0x80, CHR 0x88], [CHR 0xE2, CHR 0x80, CHR 0x89],
      [CHR 0xE2, CHR 0x80, CHR 0x8A],
      [CHR 0xE2, CHR 0x80, CHR 0xA8], [CHR 0xE2, CHR 0x80, CHR 0xA9],
      [CHR 0xE2, CHR 0x80, CHR 0xAF],
      [CHR 0xE2, CHR 0x81, CHR 0x9F],
      [CHR 0xE3, CHR 0x80, CHR 0x80]]"

definition leading_space :: "string \<Rightarrow> nat" where
  \<comment> \<open>the width of the white-space character \<open>s\<close> starts with, 0 when it starts with none\<close>
  "leading_space s =
     (case find (\<lambda>e. HasPrefix s e) white_space of None \<Rightarrow> 0 | Some e \<Rightarrow> length e)"

lemma HasPrefix_length: "HasPrefix s pre \<Longrightarrow> length pre \<le> length s"
proof -
  assume "HasPrefix s pre"
  then have "length (take (length pre) s) = length pre" by (simp add: HasPrefix_def)
  then show ?thesis by simp
qed

lemma find_Some_holds: "find P xs = Some x \<Longrightarrow> P x"
  by (induction xs) (auto split: if_splits)

lemma leading_space_le: "leading_space s \<le> length s"
proof (cases "find (\<lambda>e. HasPrefix s e) white_space")
  case None
  then show ?thesis by (simp add: leading_space_def)
next
  case (Some e)
  then have "HasPrefix s e" by (rule find_Some_holds)
  then have "length e \<le> length s" by (rule HasPrefix_length)
  with Some show ?thesis by (simp add: leading_space_def)
qed

function TrimLeftSpace :: "string \<Rightarrow> string" where
  "TrimLeftSpace s =
     (if leading_space s = 0 then s else TrimLeftSpace (drop (leading_space s) s))"
  by pat_completeness auto
termination
proof (relation "measure length")
  show "wf (measure length)" by simp
next
  fix s :: string
  assume "leading_space s \<noteq> 0"
  moreover have "leading_space s \<le> length s" by (rule leading_space_le)
  ultimately show "(drop (leading_space s) s, s) \<in> measure length" by simp
qed

declare TrimLeftSpace.simps [simp del]

definition trailing_space :: "string \<Rightarrow> nat" where
  \<comment> \<open>the width of the white-space character \<open>s\<close> ends with, 0 when it ends with none\<close>
  "trailing_space s =
     (case find (\<lambda>e. HasPrefix (rev s) (rev e)) white_space of
        None \<Rightarrow> 0 | Some e \<Rightarrow> length e)"

lemma trailing_space_le: "trailing_space s \<le> length s"
proof (cases "find (\<lambda>e. HasPrefix (rev s) (rev e)) white_space")
  case None
  then show ?thesis by (simp add: trailing_space_def)
next
  case (Some e)
  then have "HasPrefix (rev s) (rev e)" by (rule find_Some_holds)
  then have "length (rev e) \<le> length (rev s)" by (rule HasPrefix_length)
  with Some show ?thesis by (simp add: trailing_space_def)
qed

function TrimRightSpace :: "string \<Rightarrow> string" where
  "TrimRightSpace s =
     (if trailing_space s = 0 then s
      else TrimRightSpace (take (length s - trailing_space s) s))"
  by pat_completeness auto
termination
proof (relation "measure length")
  show "wf (measure length)" by simp
next
  fix s :: string
  assume "trailing_space s \<noteq> 0"
  moreover have "trailing_space s \<le> length s" by (rule trailing_space_le)
  ultimately show "(take (length s - trailing_space s) s, s) \<in> measure length" by simp
qed

declare TrimRightSpace.simps [simp del]

definition TrimSpace :: "string \<Rightarrow> string" where
  "TrimSpace s = TrimRightSpace (TrimLeftSpace s)"

text \<open>
  \<^verbatim>\<open>fmt.Sprintf("%d", n)\<close> for an \<^verbatim>\<open>int64\<close>: the decimal digits of the signed value.
\<close>

fun decimal_digits :: "nat \<Rightarrow> string" where
  "decimal_digits n =
     (if n < 10 then [''0123456789'' ! n]
      else decimal_digits (n div 10) @ [''0123456789'' ! (n mod 10)])"

declare decimal_digits.simps [simp del]

definition Sprintf_d :: "int64 \<Rightarrow> string" where
  "Sprintf_d n =
     (if sint n < 0 then CHR ''-'' # decimal_digits (nat (- sint n))
      else decimal_digits (nat (sint n)))"

subsection \<open>Time\<close>

text \<open>A \<^verbatim>\<open>time.Time\<close> is the number of nanoseconds since the Unix epoch.\<close>

definition Unix :: "int \<Rightarrow> int64" where
  "Unix t = word_of_int (t div 1000000000)"

definition UnixNano :: "int \<Rightarrow> int64" where
  "UnixNano t = word_of_int t"

subsection \<open>Readers\<close>

text \<open>
  One call of \<^verbatim>\<open>Read\<close> on a connection or a response body returns the bytes it delivered
  and its error, \<open>None\<close> for \<^verbatim>\<open>nil\<close>. A body is the list of the results its successive calls
  return; when the list is used up, \<^verbatim>\<open>Read\<close> returns no bytes and \<^verbatim>\<open>io.EOF\<close>.
\<close>

type_synonym read_result = "string \<times> error option"

fun ReadAll :: "read_result list \<Rightarrow> string \<times> error option" where
  "ReadAll [] = ([], None)"
| "ReadAll ((d, None) # rs) = (case ReadAll rs of (s, err) \<Rightarrow> (d @ s, err))"
| "ReadAll ((d, Some e) # rs) = (d, if e = io_EOF then None else Some e)"

text \<open>
  \<^verbatim>\<open>bytes.Buffer.ReadBytes('\n')\<close>: the unread bytes up to and including the first line
  feed, found or not, and what stays in the buffer. Without a line feed it hands out all the
  unread bytes (with \<^verbatim>\<open>io.EOF\<close>) and leaves the buffer empty.
\<close>

fun Index_newline :: "string \<Rightarrow> nat option" where
  "Index_newline [] = None"
| "Index_newline (c # s) =
     (if c = CHR 0x0A then Some 0 else map_option Suc (Index_newline s))"

definition ReadBytes_newline :: "string \<Rightarrow> string \<times> bool \<times> string" where
  "ReadBytes_newline buf =
     (case Index_newline buf of
        None \<Rightarrow> (buf, False, [])
      | Some i \<Rightarrow> (take (i + 1) buf, True, drop (i + 1) buf))"

text \<open>
  The \<^verbatim>\<open>bufReader\<close> that each adapter package declares, with its \<^verbatim>\<open>ReadLine\<close>: the same text
  in the three packages. When the buffer holds no complete line, \<^verbatim>\<open>ReadBytes\<close> has taken
  the incomplete one out of it; the loop then reads from the connection into the buffer and
  starts over with a fresh \<^verbatim>\<open>line\<close>.
\<close>

record bufReader =
  reader :: "read_result list"
  buf :: string

definition newBufReader :: "read_result list \<Rightarrow> bufReader" where
  "newBufReader r = \<lparr>reader = r, buf = []\<rparr>"

definition failed :: "error option \<Rightarrow> bool" where
  \<comment> \<open>\<^verbatim>\<open>err != nil && err != io.EOF\<close>\<close>
  "failed err = (err \<noteq> None \<and> err \<noteq> Some io_EOF)"

fun ReadLine_loop :: "string \<Rightarrow> read_result list \<Rightarrow> (error + string) \<times> string \<times> read_result list" where
  "ReadLine_loop b [] =
     (case ReadBytes_newline b of
        (line, True, rest) \<Rightarrow> (Inr (TrimSpace line), rest, [])
      | (line, False, rest) \<Rightarrow>
          (if length line > 0 then Inr (TrimSpace line) else Inl io_EOF, rest, []))"
| "ReadLine_loop b ((d, err) # rs) =
     (case ReadBytes_newline b of
        (line, True, rest) \<Rightarrow> (Inr (TrimSpace line), rest, (d, err) # rs)
      | (line, False, rest) \<Rightarrow>
          (if failed err then (Inl (the err), rest, rs)
           else if length d = 0
             then (if length line > 0 then Inr (TrimSpace line) else Inl io_EOF, rest, rs)
           else ReadLine_loop (rest @ d) rs))"

definition ReadLine :: "bufReader \<Rightarrow> (error + string) \<times> bufReader" where
  "ReadLine b =
     (case ReadLine_loop (buf b) (reader b) of
        (res, buf', reader') \<Rightarrow> (res, \<lparr>reader = reader', buf = buf'\<rparr>))"

text \<open>What is left to read: the bytes buffered and the reads of the connection to come.\<close>

definition unread :: "bufReader \<Rightarrow> nat" where
  "unread b = length (buf b) + sum_list (map (\<lambda>(d, err). Suc (length d)) (reader b))"

lemma Index_newline_less: "Index_newline s = Some i \<Longrightarrow> i < length s"
  by (induction s arbitrary: i) (auto split: if_splits)

lemma ReadLine_loop_consumes:
  "ReadLine_loop b rs = (Inr line, b', rs') \<Longrightarrow>
     length b' + sum_list (map (\<lambda>(d, err). Suc (length d)) rs')
       < length b + sum_list (map (\<lambda>(d, err). Suc (length d)) rs)"
proof (induction b rs rule: ReadLine_loop.induct)
  case (1 b)
  then show ?case
    by (auto simp: ReadBytes_newline_def split: option.splits if_splits
        dest: Index_newline_less)
next
  case (2 b d err rs)
  show ?case
  proof (cases "Index_newline b")
    case (Some i)
    with "2.prems" show ?thesis
      by (auto simp: ReadBytes_newline_def dest: Index_newline_less)
  next
    case None
    show ?thesis
    proof (cases "failed err")
      case True
      with None "2.prems" show ?thesis by (simp add: ReadBytes_newline_def)
    next
      case noerr: False
      show ?thesis
      proof (cases "length d = 0")
        case True
        with None noerr "2.prems" show ?thesis
          by (auto simp: ReadBytes_newline_def split: if_splits)
      next
        case False
        have rb: "ReadBytes_newline b = (b, False, [])"
          using None by (simp add: ReadBytes_newline_def)
        have "ReadLine_loop b ((d, err) # rs) = ReadLine_loop ([] @ d) rs"
          using rb noerr False by simp
        with "2.prems" have "ReadLine_loop ([] @ d) rs = (Inr line, b', rs')" by simp
        with "2.IH" rb noerr False
        have "length b' + sum_list (map (\<lambda>(d, err). Suc (length d)) rs')
            < length ([] @ d) + sum_list (map (\<lambda>(d, err). Suc (length d)) rs)"
          by simp
        then show ?thesis by simp
      qed
    qed
  qed
qed

lemma ReadLine_consumes: "ReadLine b = (Inr line, b') \<Longrightarrow> unread b' < unread b"
  by (auto simp: ReadLine_def unread_def split: prod.splits dest: ReadLine_loop_consumes)

section \<open>HTTP and the world outside the program\<close>

record http_request =
  Method :: string
  URL :: string
  Header :: "string \<Rightarrow> string option"
  Body :: json

record http_response =
  StatusCode :: go_int
  Status :: string
  ResponseBody :: "read_result list"

text \<open>
  The world holds what the program cannot decide: what \<^verbatim>\<open>client.Do\<close> returns for a request
  (given the requests made before it) and what the clock shows at each reading. It records
  every request handed to \<^verbatim>\<open>client.Do\<close> and counts the readings of the clock.
\<close>

record world =
  server :: "http_request list \<Rightarrow> http_request \<Rightarrow> error + http_response"
  requests :: "http_request list"
  clock :: "nat \<Rightarrow> int"
  ticks :: nat

definition client_Do :: "http_request \<Rightarrow> world \<Rightarrow> (error + http_response) \<times> world" where
  "client_Do r w = (server w (requests w) r, w\<lparr>requests := requests w @ [r]\<rparr>)"

definition time_Now :: "world \<Rightarrow> int \<times> world" where
  "time_Now w = (clock w (ticks w), w\<lparr>ticks := Suc (ticks w)\<rparr>)"

definition StatusOK :: go_int where
  "StatusOK = 200"

section \<open>Vendor stream event schemas\<close>

record openAIStreamDelta =
  oaDelta_Role :: string
  oaDelta_Content :: string

record openAIStreamChoice =
  oaSChoice_Index :: go_int
  oaSChoice_Delta :: openAIStreamDelta
  oaSChoice_FinishReason :: string

record openAIStreamChunk =
  oaChunk_ID :: string
  oaChunk_Object :: string
  oaChunk_Created :: int64
  oaChunk_Model :: string
  oaChunk_Choices :: "openAIStreamChoice list"
  oaChunk_SystemFingerprint :: string

record anthropicContentBlock =
  anBlock_Type :: string
  anBlock_Text :: string

record anthropicDelta =
  anDelta_Type :: string
  anDelta_Text :: string
  anDelta_StopReason :: string

record anthropicEvent =
  anEvent_Type :: string
  anEvent_Message :: "anthropicResponse option"
  anEvent_ContentBlock :: "anthropicContentBlock option"
  anEvent_Delta :: "anthropicDelta option"

section \<open>Decoding and encoding JSON\<close>

text \<open>
  \<^verbatim>\<open>json.Unmarshal\<close> into each of the structs above, and the check of a URL that
  \<^verbatim>\<open>http.NewRequestWithContext\<close> makes, belong to Go's library: they are parameters of the
  model. A decoder returns \<open>None\<close> when \<^verbatim>\<open>json.Unmarshal\<close> returns an error.
\<close>

record library =
  url_ok :: "string \<Rightarrow> bool"
  Unmarshal_openAIResponse :: "string \<Rightarrow> openAIResponse option"
  Unmarshal_anthropicResponse :: "string \<Rightarrow> anthropicResponse option"
  Unmarshal_geminiResponse :: "string \<Rightarrow> geminiResponse option"
  Unmarshal_openAIStreamChunk :: "string \<Rightarrow> openAIStreamChunk option"
  Unmarshal_anthropicEvent :: "string \<Rightarrow> anthropicEvent option"

text \<open>
  \<^verbatim>\<open>json.Marshal\<close> of a struct: the fields in turn, each under the key of its tag. A field
  tagged \<^verbatim>\<open>omitempty\<close> is left out when it is empty: a \<^verbatim>\<open>nil\<close> pointer, a zero number,
  \<^verbatim>\<open>false\<close>, an empty string, slice or map. Encoding fails on a floating-point value that
  is not finite, and on nothing else in these structs.
\<close>

definition object :: "(string \<times> json option) list \<Rightarrow> json" where
  "object members = JObject (\<lambda>k. case map_of members k of None \<Rightarrow> None | Some v \<Rightarrow> v)"

definition omitempty_string :: "string \<Rightarrow> json option" where
  "omitempty_string s = (if s = [] then None else Some (JString s))"

definition omitempty_int :: "go_int \<Rightarrow> json option" where
  "omitempty_int n = (if n = 0 then None else Some (JInt n))"

definition omitempty_float :: "float64 \<Rightarrow> json option" where
  "omitempty_float f = (if float64_is_zero f then None else Some (JFloat f))"

definition omitempty_bool :: "bool \<Rightarrow> json option" where
  "omitempty_bool b = (if b then Some (JBool True) else None)"

definition omitempty_strings :: "string list option \<Rightarrow> json option" where
  "omitempty_strings xs =
     (case xs of None \<Rightarrow> None
      | Some l \<Rightarrow> if l = [] then None else Some (JArray (map JString l)))"

definition omitempty_int_map :: "(string \<times> go_int) list option \<Rightarrow> json option" where
  "omitempty_int_map m =
     (case m of None \<Rightarrow> None
      | Some l \<Rightarrow>
          if l = [] then None else Some (JObject (\<lambda>k. map_option JInt (map_of l k))))"

definition finite_or_nil :: "float64 option \<Rightarrow> bool" where
  "finite_or_nil f = (case f of None \<Rightarrow> True | Some v \<Rightarrow> float64_is_finite v)"

subsection \<open>The OpenAI request\<close>

record openAIRequest =
  oaReq_Model :: string
  oaReq_Messages :: "openAIMessage list"
  oaReq_Temperature :: "float64 option"
  oaReq_MaxTokens :: "go_int option"
  oaReq_MaxCompletionTokens :: "go_int option"
  oaReq_TopP :: "float64 option"
  oaReq_FrequencyPenalty :: "float64 option"
  oaReq_PresencePenalty :: "float64 option"
  oaReq_Stop :: "string list option"
  oaReq_Stream :: bool
  oaReq_N :: go_int
  oaReq_LogitBias :: "(string \<times> go_int) list option"
  oaReq_User :: string

definition marshal_openAIMessage :: "openAIMessage \<Rightarrow> json" where
  "marshal_openAIMessage m =
     object [(''role'', Some (JString (oaMsg_Role m))),
             (''content'', Some (JString (oaMsg_Content m)))]"

definition marshal_openAIRequest :: "openAIRequest \<Rightarrow> json option" where
  "marshal_openAIRequest r =
     (if finite_or_nil (oaReq_Temperature r) \<and> finite_or_nil (oaReq_TopP r) \<and>
         finite_or_nil (oaReq_FrequencyPenalty r) \<and> finite_or_nil (oaReq_PresencePenalty r)
      then Some (object
        [(''model'', Some (JString (oaReq_Model r))),
         (''messages'', Some (JArray (map marshal_openAIMessage (oaReq_Messages r)))),
         (''temperature'', map_option JFloat (oaReq_Temperature r)),
         (''max_tokens'', map_option JInt (oaReq_MaxTokens r)),
         (''max_completion_tokens'', map_option JInt (oaReq_MaxCompletionTokens r)),
         (''top_p'', map_option JFloat (oaReq_TopP r)),
         (''frequency_penalty'', map_option JFloat (oaReq_FrequencyPenalty r)),
         (''presence_penalty'', map_option JFloat (oaReq_PresencePenalty r)),
         (''stop'', omitempty_strings (oaReq_Stop r)),
         (''stream'', omitempty_bool (oaReq_Stream r)),
         (''n'', omitempty_int (oaReq_N r)),
         (''logit_bias'', omitempty_int_map (oaReq_LogitBias r)),
         (''user'', omitempty_string (oaReq_User r))])
      else None)"

subsection \<open>The Anthropic request\<close>

record anthropicMessage =
  anMsg_Role :: string
  anMsg_Content :: string

record anthropicRequest =
  anReq_Model :: string
  anReq_Messages :: "anthropicMessage list"
  anReq_System :: string
  anReq_MaxTokens :: go_int
  anReq_Temperature :: float64
  anReq_TopP :: float64
  anReq_Stream :: bool
  anReq_StopSequences :: "string list option"

definition marshal_anthropicMessage :: "anthropicMessage \<Rightarrow> json" where
  "marshal_anthropicMessage m =
     object [(''role'', Some (JString (anMsg_Role m))),
             (''content'', Some (JString (anMsg_Content m)))]"

definition marshal_anthropicRequest :: "anthropicRequest \<Rightarrow> json option" where
  "marshal_anthropicRequest r =
     (if float64_is_finite (anReq_Temperature r) \<and> float64_is_finite (anReq_TopP r)
      then Some (object
        [(''model'', Some (JString (anReq_Model r))),
         (''messages'', Some (JArray (map marshal_anthropicMessage (anReq_Messages r)))),
         (''system'', omitempty_string (anReq_System r)),
         (''max_tokens'', omitempty_int (anReq_MaxTokens r)),
         (''temperature'', omitempty_float (anReq_Temperature r)),
         (''top_p'', omitempty_float (anReq_TopP r)),
         (''stream'', omitempty_bool (anReq_Stream r)),
         (''stop_sequences'', omitempty_strings (anReq_StopSequences r))])
      else None)"

subsection \<open>The Gemini request\<close>

record geminiPart =
  gReqPart_Text :: string
  gReqPart_Role :: string

record geminiContent =
  gReqContent_Role :: string
  gReqContent_Parts :: "geminiPart list"

record geminiGenerationConfig =
  gCfg_Temperature :: "float64 option"
  gCfg_MaxOutputTokens :: "go_int option"
  gCfg_TopP :: "float64 option"
  gCfg_TopK :: "go_int option"
  gCfg_StopSequences :: "string list option"

record geminiSafetySetting =
  gSafety_Category :: string
  gSafety_Threshold :: string

text \<open>
  \<^verbatim>\<open>Contents\<close> and \<^verbatim>\<open>SafetySettings\<close> are slices that the code only ever appends to, so they
  are \<^verbatim>\<open>nil\<close> exactly when they are empty; a \<^verbatim>\<open>nil\<close> slice without \<^verbatim>\<open>omitempty\<close> is encoded
  as \<^verbatim>\<open>null\<close>.
\<close>

record geminiRequest =
  gReq_Contents :: "geminiContent list"
  gReq_GenerationConfig :: "geminiGenerationConfig option"
  gReq_SafetySettings :: "geminiSafetySetting list"
  gReq_Stream :: bool

definition marshal_geminiPart :: "geminiPart \<Rightarrow> json" where
  "marshal_geminiPart p =
     object [(''text'', omitempty_string (gReqPart_Text p)),
             (''role'', omitempty_string (gReqPart_Role p))]"

definition marshal_geminiContent :: "geminiContent \<Rightarrow> json" where
  "marshal_geminiContent c =
     object [(''role'', omitempty_string (gReqContent_Role c)),
             (''parts'', Some (JArray (map marshal_geminiPart (gReqContent_Parts c))))]"

definition marshal_geminiGenerationConfig :: "geminiGenerationConfig \<Rightarrow> json" where
  "marshal_geminiGenerationConfig g =
     object [(''temperature'', map_option JFloat (gCfg_Temperature g)),
             (''maxOutputTokens'', map_option JInt (gCfg_MaxOutputTokens g)),
             (''topP'', map_option JFloat (gCfg_TopP g)),
             (''topK'', map_option JInt (gCfg_TopK g)),
             (''stopSequences'', omitempty_strings (gCfg_StopSequences g))]"

definition marshal_geminiSafetySetting :: "geminiSafetySetting \<Rightarrow> json" where
  "marshal_geminiSafetySetting s =
     object [(''category'', Some (JString (gSafety_Category s))),
             (''threshold'', Some (JString (gSafety_Threshold s)))]"

definition marshal_geminiRequest :: "geminiRequest \<Rightarrow> json option" where
  "marshal_geminiRequest r =
     (if (case gReq_GenerationConfig r of None \<Rightarrow> True
          | Some g \<Rightarrow> finite_or_nil (gCfg_Temperature g) \<and> finite_or_nil (gCfg_TopP g))
      then Some (object
        [(''contents'',
            Some (if gReq_Contents r = [] then JNull
                  else JArray (map marshal_geminiContent (gReq_Contents r)))),
         (''generationConfig'',
            map_option marshal_geminiGenerationConfig (gReq_GenerationConfig r)),
         (''safetySettings'',
            (if gReq_SafetySettings r = [] then None
             else Some (JArray (map marshal_geminiSafetySetting (gReq_SafetySettings r))))),
         (''stream'', omitempty_bool (gReq_Stream r))])
      else None)"

subsection \<open>From the encoded request to the response\<close>

text \<open>
  The steps every \<^verbatim>\<open>Completion\<close> and \<^verbatim>\<open>CompletionStream\<close> takes between building the
  vendor's request struct and looking at the response, in the order of the source:
  \<^verbatim>\<open>json.Marshal\<close>, \<^verbatim>\<open>http.NewRequestWithContext\<close> with method POST, setting the headers
  (a later \<^verbatim>\<open>Set\<close> of a key replaces an earlier one), \<^verbatim>\<open>client.Do\<close>.
\<close>

definition post :: "library \<Rightarrow> string \<Rightarrow> (string \<times> string) list \<Rightarrow> json option \<Rightarrow> world
    \<Rightarrow> (error + http_response) \<times> world" where
  "post lib url headers marshalled w =
     (case marshalled of
        None \<Rightarrow> (Inl MarshalFailed, w)
      | Some reqBody \<Rightarrow>
          if \<not> url_ok lib url then (Inl CreateRequestFailed, w)
          else
            (case client_Do \<lparr>Method = ''POST'', URL = url, Header = map_of (rev headers),
                             Body = reqBody\<rparr> w of
               (Inl err, w') \<Rightarrow> (Inl (SendRequestFailed err), w')
             | (Inr resp, w') \<Rightarrow> (Inr resp, w')))"

text \<open>
  What \<^verbatim>\<open>Completion\<close> does with the response before decoding it: read the whole body, then
  check the status.
\<close>

definition successful_body :: "string \<Rightarrow> http_response \<Rightarrow> error + string" where
  "successful_body vendor resp =
     (case ReadAll (ResponseBody resp) of
        (body, Some err) \<Rightarrow> Inl (ReadBodyFailed err)
      | (body, None) \<Rightarrow>
          if StatusCode resp \<noteq> StatusOK then Inl (APIReturnedError vendor (Status resp) body)
          else Inr body)"

text \<open>
  What \<^verbatim>\<open>CompletionStream\<close> does with it: on a status other than 200 it reads the body,
  ignoring a read error, and fails; otherwise the body stays open, for the stream.
\<close>

definition open_body :: "string \<Rightarrow> http_response \<Rightarrow> error + read_result list" where
  "open_body vendor resp =
     (if StatusCode resp \<noteq> StatusOK
      then Inl (APIReturnedError vendor (Status resp) (fst (ReadAll (ResponseBody resp))))
      else Inr (ResponseBody resp))"

section \<open>The OpenAI adapter\<close>

definition completionTokenModels :: "string \<Rightarrow> bool option" where
  "completionTokenModels =
     map_of [(''o1'', True), (''o1-mini'', True), (''o3-mini'', True),
             (''o3-mini-2025-01-31'', True), (''o4-mini'', True),
             (''o4-mini-2025-04-16'', True), (''o1-mini-2024-09-12'', True),
             (''o1-preview'', True), (''o1-preview-2024-09-12'', True),
             (''o1-2024-12-17'', True)]"

definition getModelMaxTokensParam :: "string \<Rightarrow> string" where
  "getModelMaxTokensParam model =
     (if completionTokenModels model = Some True then ''max_completion_tokens''
      else ''max_tokens'')"

text \<open>
  The request struct that \<^verbatim>\<open>Completion\<close> (with \<open>stream\<close> false) and \<^verbatim>\<open>CompletionStream\<close>
  (with \<open>stream\<close> true) build, by the same statements.
\<close>

definition openai_request :: "bool \<Rightarrow> CompletionRequest \<Rightarrow> openAIRequest" where
  "openai_request stream req =
     (let openAIReq =
            \<lparr>oaReq_Model = Model req, oaReq_Messages = [],
             oaReq_Temperature = Temperature req, oaReq_MaxTokens = None,
             oaReq_MaxCompletionTokens = None, oaReq_TopP = TopP req,
             oaReq_FrequencyPenalty = FrequencyPenalty req,
             oaReq_PresencePenalty = PresencePenalty req, oaReq_Stop = Stop req,
             oaReq_Stream = stream, oaReq_N = 1, oaReq_LogitBias = LogitBias req,
             oaReq_User = User req\<rparr>;
          maxTokensParam = getModelMaxTokensParam (Model req);
          openAIReq =
            (if maxTokensParam = ''max_completion_tokens''
             then (if MaxTokens req \<noteq> None
                   then openAIReq\<lparr>oaReq_MaxCompletionTokens := MaxTokens req\<rparr>
                   else openAIReq)
             else openAIReq\<lparr>oaReq_MaxTokens := MaxTokens req\<rparr>)
      in openAIReq\<lparr>oaReq_Messages :=
           map (\<lambda>msg. \<lparr>oaMsg_Role = Role msg, oaMsg_Content = Content msg\<rparr>) (Messages req)\<rparr>)"

definition openai_headers :: "openai_Provider \<Rightarrow> (string \<times> string) list" where
  "openai_headers p =
     [(''Content-Type'', ''application/json''),
      (''Authorization'', ''Bearer '' @ openai_apiKey p)]"

definition openai_response :: "openAIResponse \<Rightarrow> CompletionResponse" where
  "openai_response openAIResp =
     \<lparr>ID = oaResp_ID openAIResp,
      Object = oaResp_Object openAIResp,
      Created = oaResp_Created openAIResp,
      RespModel = oaResp_Model openAIResp,
      Choices =
        map (\<lambda>choice.
              \<lparr>Index = oaChoice_Index choice,
               ChoiceMessage =
                 \<lparr>Role = oaMsg_Role (oaChoice_Message choice),
                  Content = oaMsg_Content (oaChoice_Message choice)\<rparr>,
               FinishReason = oaChoice_FinishReason choice\<rparr>)
          (oaResp_Choices openAIResp),
      Usage =
        \<lparr>PromptTokens = oaUsage_PromptTokens (oaResp_Usage openAIResp),
         CompletionTokens = oaUsage_CompletionTokens (oaResp_Usage openAIResp),
         TotalTokens = oaUsage_TotalTokens (oaResp_Usage openAIResp)\<rparr>,
      SystemFingerprint = oaResp_SystemFingerprint openAIResp,
      Provider = ''openai'',
      RawResponse = RawOpenAI openAIResp\<rparr>"

definition openai_Completion :: "library \<Rightarrow> openai_Provider \<Rightarrow> CompletionRequest \<Rightarrow> world
    \<Rightarrow> (error + CompletionResponse) \<times> world" where
  "openai_Completion lib p req w =
     (if openai_apiKey p = [] then (Inl (APIKeyNotSet ''OpenAI''), w)
      else
        (case post lib (openai_endpoint p) (openai_headers p)
                (marshal_openAIRequest (openai_request False req)) w of
           (Inl err, w') \<Rightarrow> (Inl err, w')
         | (Inr resp, w') \<Rightarrow>
             (case successful_body ''OpenAI'' resp of
                Inl err \<Rightarrow> (Inl err, w')
              | Inr body \<Rightarrow>
                  (case Unmarshal_openAIResponse lib body of
                     None \<Rightarrow> (Inl ParseResponseFailed, w')
                   | Some openAIResp \<Rightarrow> (Inr (openai_response openAIResp), w')))))"

section \<open>The Anthropic adapter\<close>

text \<open>
  \<^verbatim>\<open>convertMessages\<close>: a system message sets the system prompt, the last one winning; every
  other message is appended with the role \<^verbatim>\<open>assistant\<close> or \<^verbatim>\<open>user\<close>.
\<close>

fun convertMessages_loop ::
    "Message list \<Rightarrow> anthropicMessage list \<times> string \<Rightarrow> anthropicMessage list \<times> string" where
  "convertMessages_loop [] (anthropicMessages, system) = (anthropicMessages, system)"
| "convertMessages_loop (msg # msgs) (anthropicMessages, system) =
     (if Role msg = ''system''
      then convertMessages_loop msgs (anthropicMessages, Content msg)
      else convertMessages_loop msgs
             (anthropicMessages @
                [\<lparr>anMsg_Role = (if Role msg = ''assistant'' then ''assistant'' else ''user''),
                  anMsg_Content = Content msg\<rparr>],
              system))"

definition convertMessages :: "Message list \<Rightarrow> anthropicMessage list \<times> string" where
  "convertMessages messages = convertMessages_loop messages ([], [])"

text \<open>
  The request struct of \<^verbatim>\<open>Completion\<close> (\<open>stream\<close> false) and of \<^verbatim>\<open>CompletionStream\<close>
  (\<open>stream\<close> true). A field that is not set keeps the zero value.
\<close>

definition anthropic_request :: "bool \<Rightarrow> CompletionRequest \<Rightarrow> anthropicRequest" where
  "anthropic_request stream req =
     (case convertMessages (Messages req) of
        (messages, system) \<Rightarrow>
          \<lparr>anReq_Model = Model req,
           anReq_Messages = messages,
           anReq_System = system,
           anReq_MaxTokens = (case MaxTokens req of Some n \<Rightarrow> n | None \<Rightarrow> 4096),
           anReq_Temperature = (case Temperature req of Some t \<Rightarrow> t | None \<Rightarrow> 0),
           anReq_TopP = (case TopP req of Some t \<Rightarrow> t | None \<Rightarrow> 0),
           anReq_Stream = stream,
           anReq_StopSequences = Stop req\<rparr>)"

definition anthropic_headers :: "bool \<Rightarrow> anthropic_Provider \<Rightarrow> (string \<times> string) list" where
  "anthropic_headers stream p =
     [(''Content-Type'', ''application/json''),
      (''x-api-key'', anthropic_apiKey p),
      (''anthropic-version'', anthropic_apiVersion p)]
     @ (if stream then [(''Accept'', ''text/event-stream'')] else [])"

definition anthropic_text :: "anthropicResponseContent list \<Rightarrow> string" where
  "anthropic_text cs = concat (map anContent_Text (filter (\<lambda>c. anContent_Type c = ''text'') cs))"

definition anthropic_response :: "anthropicResponse \<Rightarrow> int \<Rightarrow> CompletionResponse" where
  "anthropic_response anthropicResp now =
     \<lparr>ID = anResp_ID anthropicResp,
      Object = ''chat.completion'',
      Created = Unix now,
      RespModel = anResp_Model anthropicResp,
      Choices =
        [\<lparr>Index = 0,
          ChoiceMessage =
            \<lparr>Role = ''assistant'', Content = anthropic_text (anResp_Content anthropicResp)\<rparr>,
          FinishReason = anResp_StopReason anthropicResp\<rparr>],
      Usage =
        \<lparr>PromptTokens = InputTokens (anResp_Usage anthropicResp),
         CompletionTokens = OutputTokens (anResp_Usage anthropicResp),
         TotalTokens =
           InputTokens (anResp_Usage anthropicResp) + OutputTokens (anResp_Usage anthropicResp)\<rparr>,
      SystemFingerprint = [],
      Provider = ''anthropic'',
      RawResponse = RawAnthropic anthropicResp\<rparr>"

definition anthropic_Completion :: "library \<Rightarrow> anthropic_Provider \<Rightarrow> CompletionRequest \<Rightarrow> world
    \<Rightarrow> (error + CompletionResponse) \<times> world" where
  "anthropic_Completion lib p req w =
     (if anthropic_apiKey p = [] then (Inl (APIKeyNotSet ''Anthropic''), w)
      else
        (case post lib (anthropic_endpoint p) (anthropic_headers False p)
                (marshal_anthropicRequest (anthropic_request False req)) w of
           (Inl err, w') \<Rightarrow> (Inl err, w')
         | (Inr resp, w') \<Rightarrow>
             (case successful_body ''Anthropic'' resp of
                Inl err \<Rightarrow> (Inl err, w')
              | Inr body \<Rightarrow>
                  (case Unmarshal_anthropicResponse lib body of
                     None \<Rightarrow> (Inl ParseResponseFailed, w')
                   | Some anthropicResp \<Rightarrow>
                       (case time_Now w' of
                          (now, w'') \<Rightarrow> (Inr (anthropic_response anthropicResp now), w''))))))"

section \<open>The Google adapter\<close>

text \<open>
  \<^verbatim>\<open>convertMessagesToGeminiFormat\<close>: the first system message, when its content is not empty,
  goes first, as a user message; the other messages follow, no system message among them.
\<close>

fun first_system_message :: "Message list \<Rightarrow> string" where
  "first_system_message [] = []"
| "first_system_message (msg # msgs) =
     (if Role msg = ''system'' then Content msg else first_system_message msgs)"

fun gemini_rest :: "Message list \<Rightarrow> geminiContent list" where
  "gemini_rest [] = []"
| "gemini_rest (msg # msgs) =
     (if Role msg = ''system'' then gemini_rest msgs
      else
        \<lparr>gReqContent_Role =
            (if Role msg = ''assistant'' then ''model''
             else if Role msg \<noteq> ''user'' then ''user'' else Role msg),
          gReqContent_Parts = [\<lparr>gReqPart_Text = Content msg, gReqPart_Role = []\<rparr>]\<rparr>
        # gemini_rest msgs)"

definition convertMessagesToGeminiFormat :: "Message list \<Rightarrow> geminiContent list" where
  "convertMessagesToGeminiFormat messages =
     (let systemMessage = first_system_message messages
      in (if systemMessage \<noteq> []
          then [\<lparr>gReqContent_Role = ''user'',
                  gReqContent_Parts = [\<lparr>gReqPart_Text = systemMessage, gReqPart_Role = []\<rparr>]\<rparr>]
          else [])
         @ gemini_rest messages)"

definition google_request :: "bool \<Rightarrow> CompletionRequest \<Rightarrow> geminiRequest" where
  "google_request stream req =
     (let config =
            \<lparr>gCfg_Temperature = Temperature req, gCfg_MaxOutputTokens = MaxTokens req,
             gCfg_TopP = TopP req, gCfg_TopK = None, gCfg_StopSequences = Stop req\<rparr>;
          config =
            (case ExtraParams req of
               None \<Rightarrow> config
             | Some params \<Rightarrow>
                 (case params ''topK'' of
                    Some (AnyInt topK) \<Rightarrow> config\<lparr>gCfg_TopK := Some topK\<rparr>
                  | _ \<Rightarrow> config))
      in \<lparr>gReq_Contents = convertMessagesToGeminiFormat (Messages req),
          gReq_GenerationConfig = Some config,
          gReq_SafetySettings = [],
          gReq_Stream = stream\<rparr>)"

definition google_url :: "google_Provider \<Rightarrow> string \<Rightarrow> string \<Rightarrow> string" where
  \<comment> \<open>\<^verbatim>\<open>fmt.Sprintf("%s/%s:<method>?key=%s", p.endpoint, req.Model, p.apiKey)\<close>\<close>
  "google_url p model method =
     google_endpoint p @ ''/'' @ model @ '':'' @ method @ ''?key='' @ google_apiKey p"

definition google_headers :: "bool \<Rightarrow> (string \<times> string) list" where
  "google_headers stream =
     [(''Content-Type'', ''application/json'')]
     @ (if stream then [(''Accept'', ''text/event-stream'')] else [])"

definition gemini_text :: "geminiResponsePart list \<Rightarrow> string" where
  "gemini_text parts = concat (map gPart_Text parts)"

definition google_response ::
    "CompletionRequest \<Rightarrow> geminiResponse \<Rightarrow> int \<Rightarrow> int \<Rightarrow> CompletionResponse" where
  "google_response req geminiResp now1 now2 =
     \<lparr>ID = ''google-'' @ Sprintf_d (UnixNano now1),
      Object = ''chat.completion'',
      Created = Unix now2,
      RespModel = Model req,
      Choices =
        map (\<lambda>candidate.
              \<lparr>Index = gCand_Index candidate,
               ChoiceMessage =
                 \<lparr>Role = ''assistant'',
                  Content = gemini_text (gContent_Parts (gCand_Content candidate))\<rparr>,
               FinishReason = gCand_FinishReason candidate\<rparr>)
          (Candidates geminiResp),
      Usage =
        \<lparr>PromptTokens = PromptTokenCount (gResp_Usage geminiResp),
         CompletionTokens = CandidatesTokenCount (gResp_Usage geminiResp),
         TotalTokens = TotalTokenCount (gResp_Usage geminiResp)\<rparr>,
      SystemFingerprint = [],
      Provider = ''google'',
      RawResponse = RawGemini geminiResp\<rparr>"

definition google_Completion :: "library \<Rightarrow> google_Provider \<Rightarrow> CompletionRequest \<Rightarrow> world
    \<Rightarrow> (error + CompletionResponse) \<times> world" where
  "google_Completion lib p req w =
     (if google_apiKey p = [] then (Inl (APIKeyNotSet ''Google''), w)
      else
        (case post lib (google_url p (Model req) ''generateContent'') (google_headers False)
                (marshal_geminiRequest (google_request False req)) w of
           (Inl err, w') \<Rightarrow> (Inl err, w')
         | (Inr resp, w') \<Rightarrow>
             (case successful_body ''Google'' resp of
                Inl err \<Rightarrow> (Inl err, w')
              | Inr body \<Rightarrow>
                  (case Unmarshal_geminiResponse lib body of
                     None \<Rightarrow> (Inl ParseResponseFailed, w')
                   | Some geminiResp \<Rightarrow>
                       if length (Candidates geminiResp) = 0
                       then (Inl NoCompletionCandidates, w')
                       else
                         (case time_Now w' of
                            (now1, w1) \<Rightarrow>
                              (case time_Now w1 of
                                 (now2, w2) \<Rightarrow>
                                   (Inr (google_response req geminiResp now1 now2), w2)))))))"

section \<open>Streams\<close>

text \<open>
  One turn of the loop of a \<^verbatim>\<open>Recv\<close>, after \<^verbatim>\<open>ReadLine\<close> has returned a line: either the loop
  goes on to the next line, or \<^verbatim>\<open>Recv\<close> returns.
\<close>

datatype ('s, 'r) step = Continue 's | Return 'r 's

subsection \<open>OpenAI\<close>

record OpenAIResponseStream =
  oaS_reader :: bufReader
  oaS_currentRole :: string
  oaS_model :: string
  oaS_provider :: string
  oaS_id :: string
  oaS_created :: int64
  oaS_fingerprint :: string
  oaS_chunkIndex :: go_int
  oaS_streamFinished :: bool

definition openai_chunk ::
    "OpenAIResponseStream \<Rightarrow> openAIStreamChoice \<Rightarrow> CompletionResponse" where
  "openai_chunk s choice =
     \<lparr>ID = oaS_id s,
      Object = ''chat.completion.chunk'',
      Created = oaS_created s,
      RespModel = oaS_model s,
      Choices =
        [\<lparr>Index = oaSChoice_Index choice,
          ChoiceMessage =
            \<lparr>Role = oaS_currentRole s, Content = oaDelta_Content (oaSChoice_Delta choice)\<rparr>,
          FinishReason = oaSChoice_FinishReason choice\<rparr>],
      Usage = zero_CompletionUsage,
      SystemFingerprint = oaS_fingerprint s,
      Provider = oaS_provider s,
      RawResponse = RawNil\<rparr>"

definition openai_Recv_line :: "library \<Rightarrow> string \<Rightarrow> OpenAIResponseStream
    \<Rightarrow> (OpenAIResponseStream, error + CompletionResponse) step" where
  "openai_Recv_line lib line s =
     (if length line = 0 \<or> HasPrefix line '':'' then Continue s
      else if \<not> HasPrefix line ''data: '' then Continue s
      else
        (let data = TrimPrefix line ''data: '' in
         if data = ''[DONE]'' then Return (Inl io_EOF) (s\<lparr>oaS_streamFinished := True\<rparr>)
         else
           (case Unmarshal_openAIStreamChunk lib data of
              None \<Rightarrow> Return (Inl ParseStreamFailed) s
            | Some chunk \<Rightarrow>
                (let s1 = (if oaS_id s = []
                           then s\<lparr>oaS_id := oaChunk_ID chunk,
                                  oaS_model := oaChunk_Model chunk,
                                  oaS_created := oaChunk_Created chunk,
                                  oaS_fingerprint := oaChunk_SystemFingerprint chunk\<rparr>
                           else s)
                 in (case oaChunk_Choices chunk of
                       [] \<Rightarrow> Continue s1
                     | choice # _ \<Rightarrow>
                         (let s2 = (if oaDelta_Role (oaSChoice_Delta choice) \<noteq> []
                                    then s1\<lparr>oaS_currentRole :=
                                              oaDelta_Role (oaSChoice_Delta choice)\<rparr>
                                    else s1)
                          in Return (Inr (openai_chunk s2 choice))
                               (s2\<lparr>oaS_chunkIndex := oaS_chunkIndex s2 + 1\<rparr>)))))))"

lemma openai_Recv_line_reader:
  "openai_Recv_line lib line s = Continue s' \<Longrightarrow> oaS_reader s' = oaS_reader s"
  by (auto simp: openai_Recv_line_def Let_def split: if_splits option.splits list.splits)

function openai_Recv_loop :: "library \<Rightarrow> OpenAIResponseStream
    \<Rightarrow> (error + CompletionResponse) \<times> OpenAIResponseStream" where
  "openai_Recv_loop lib s =
     (case ReadLine (oaS_reader s) of
        (Inl err, r) \<Rightarrow> (Inl err, s\<lparr>oaS_reader := r\<rparr>)
      | (Inr line, r) \<Rightarrow>
          (case openai_Recv_line lib line (s\<lparr>oaS_reader := r\<rparr>) of
             Return res s' \<Rightarrow> (res, s')
           | Continue s' \<Rightarrow> openai_Recv_loop lib s'))"
  by pat_completeness auto
termination
proof (relation "measure (\<lambda>(lib, s). unread (oaS_reader s))")
  show "wf (measure (\<lambda>(lib, s). unread (oaS_reader s)))" by simp
next
  fix lib s x r line s'
  assume rl: "(x, r) = ReadLine (oaS_reader s)" "x = Inr line"
    and st: "openai_Recv_line lib line (s\<lparr>oaS_reader := r\<rparr>) = Continue s'"
  from rl have "unread r < unread (oaS_reader s)"
    using ReadLine_consumes[of "oaS_reader s" line r] by simp
  moreover from st have "oaS_reader s' = r"
    using openai_Recv_line_reader[OF st] by simp
  ultimately show "((lib, s'), (lib, s)) \<in> measure (\<lambda>(lib, s). unread (oaS_reader s))"
    by simp
qed

declare openai_Recv_loop.simps [simp del]

definition openai_Recv :: "library \<Rightarrow> OpenAIResponseStream
    \<Rightarrow> (error + CompletionResponse) \<times> OpenAIResponseStream" where
  "openai_Recv lib s =
     (if oaS_streamFinished s then (Inl io_EOF, s) else openai_Recv_loop lib s)"

definition openai_new_stream :: "read_result list \<Rightarrow> OpenAIResponseStream" where
  \<comment> \<open>\<^verbatim>\<open>&OpenAIResponseStream{reader: newBufReader(resp.Body), provider: p.Name()}\<close>\<close>
  "openai_new_stream body =
     \<lparr>oaS_reader = newBufReader body, oaS_currentRole = [], oaS_model = [],
      oaS_provider = ''openai'', oaS_id = [], oaS_created = 0, oaS_fingerprint = [],
      oaS_chunkIndex = 0, oaS_streamFinished = False\<rparr>"

definition openai_CompletionStream :: "library \<Rightarrow> openai_Provider \<Rightarrow> CompletionRequest \<Rightarrow> world
    \<Rightarrow> (error + OpenAIResponseStream) \<times> world" where
  "openai_CompletionStream lib p req w =
     (if openai_apiKey p = [] then (Inl (APIKeyNotSet ''OpenAI''), w)
      else
        (case post lib (openai_endpoint p)
                (openai_headers p @ [(''Accept'', ''text/event-stream'')])
                (marshal_openAIRequest (openai_request True req)) w of
           (Inl err, w') \<Rightarrow> (Inl err, w')
         | (Inr resp, w') \<Rightarrow>
             (case open_body ''OpenAI'' resp of
                Inl err \<Rightarrow> (Inl err, w')
              | Inr body \<Rightarrow> (Inr (openai_new_stream body), w'))))"

subsection \<open>Anthropic\<close>

record AnthropicResponseStream =
  anS_reader :: bufReader
  anS_provider :: string
  anS_id :: string
  anS_streamFinished :: bool

definition chunk_response :: "string \<Rightarrow> int64 \<Rightarrow> string \<Rightarrow> string \<Rightarrow> string
    \<Rightarrow> CompletionResponse" where
  \<comment> \<open>the chunk that the Anthropic and the Google stream build: one choice, of the assistant\<close>
  "chunk_response ident created provider content finishReason =
     \<lparr>ID = ident,
      Object = ''chat.completion.chunk'',
      Created = created,
      RespModel = [],
      Choices =
        [\<lparr>Index = 0,
          ChoiceMessage = \<lparr>Role = ''assistant'', Content = content\<rparr>,
          FinishReason = finishReason\<rparr>],
      Usage = zero_CompletionUsage,
      SystemFingerprint = [],
      Provider = provider,
      RawResponse = RawNil\<rparr>"

definition anthropic_Recv_line :: "library \<Rightarrow> string \<Rightarrow> AnthropicResponseStream \<times> world
    \<Rightarrow> (AnthropicResponseStream \<times> world, error + CompletionResponse) step" where
  "anthropic_Recv_line lib line sw =
     (case sw of (s, w) \<Rightarrow>
      if length line = 0 then Continue (s, w)
      else if \<not> HasPrefix line ''data: '' then Continue (s, w)
      else
        (let data = TrimPrefix line ''data: '' in
         if data = ''[DONE]'' then Return (Inl io_EOF) (s\<lparr>anS_streamFinished := True\<rparr>, w)
         else
           (case Unmarshal_anthropicEvent lib data of
              None \<Rightarrow> Return (Inl ParseStreamFailed) (s, w)
            | Some event \<Rightarrow>
                if anEvent_Type event = ''content_block_start'' \<or>
                   anEvent_Type event = ''content_block_delta''
                then
                  (case (case anEvent_ContentBlock event of
                           Some block \<Rightarrow> (anBlock_Text block, s)
                         | None \<Rightarrow>
                             (case anEvent_Delta event of
                                Some delta \<Rightarrow>
                                  (anDelta_Text delta,
                                   if anDelta_StopReason delta \<noteq> []
                                   then s\<lparr>anS_streamFinished := True\<rparr> else s)
                              | None \<Rightarrow> ([], s))) of
                     (content, s1) \<Rightarrow>
                       (case time_Now w of
                          (now, w1) \<Rightarrow>
                            Return (Inr (chunk_response (anS_id s1) (Unix now)
                                           (anS_provider s1) content []))
                              (s1, w1)))
                else if anEvent_Type event = ''message_start'' \<and> anEvent_Message event \<noteq> None
                then Continue (s\<lparr>anS_id := anResp_ID (the (anEvent_Message event))\<rparr>, w)
                else Continue (s, w))))"

lemma anthropic_Recv_line_reader:
  "anthropic_Recv_line lib line (s, w) = Continue (s', w') \<Longrightarrow> anS_reader s' = anS_reader s"
  by (auto simp: anthropic_Recv_line_def Let_def split: if_splits option.splits prod.splits)

function anthropic_Recv_loop :: "library \<Rightarrow> AnthropicResponseStream \<Rightarrow> world
    \<Rightarrow> (error + CompletionResponse) \<times> AnthropicResponseStream \<times> world" where
  "anthropic_Recv_loop lib s w =
     (case ReadLine (anS_reader s) of
        (Inl err, r) \<Rightarrow> (Inl err, s\<lparr>anS_reader := r\<rparr>, w)
      | (Inr line, r) \<Rightarrow>
          (case anthropic_Recv_line lib line (s\<lparr>anS_reader := r\<rparr>, w) of
             Return res sw \<Rightarrow> (res, sw)
           | Continue (s', w') \<Rightarrow> anthropic_Recv_loop lib s' w'))"
  by pat_completeness auto
termination
proof (relation "measure (\<lambda>(lib, s, w). unread (anS_reader s))")
  show "wf (measure (\<lambda>(lib, s, w). unread (anS_reader s)))" by simp
next
  fix lib s w x r line sw s' w'
  assume rl: "(x, r) = ReadLine (anS_reader s)" "x = Inr line"
    and st: "anthropic_Recv_line lib line (s\<lparr>anS_reader := r\<rparr>, w) = Continue sw"
      "(s', w') = sw"
  from rl have "unread r < unread (anS_reader s)"
    using ReadLine_consumes[of "anS_reader s" line r] by simp
  moreover from st have "anS_reader s' = r"
    using anthropic_Recv_line_reader[of lib line "s\<lparr>anS_reader := r\<rparr>" w s' w'] by simp
  ultimately show "((lib, s', w'), (lib, s, w)) \<in> measure (\<lambda>(lib, s, w). unread (anS_reader s))"
    by simp
qed

declare anthropic_Recv_loop.simps [simp del]

definition anthropic_Recv :: "library \<Rightarrow> AnthropicResponseStream \<Rightarrow> world
    \<Rightarrow> (error + CompletionResponse) \<times> AnthropicResponseStream \<times> world" where
  "anthropic_Recv lib s w =
     (if anS_streamFinished s then (Inl io_EOF, s, w) else anthropic_Recv_loop lib s w)"

definition anthropic_new_stream :: "read_result list \<Rightarrow> AnthropicResponseStream" where
  "anthropic_new_stream body =
     \<lparr>anS_reader = newBufReader body, anS_provider = ''anthropic'', anS_id = [],
      anS_streamFinished = False\<rparr>"

definition anthropic_CompletionStream :: "library \<Rightarrow> anthropic_Provider \<Rightarrow> CompletionRequest
    \<Rightarrow> world \<Rightarrow> (error + AnthropicResponseStream) \<times> world" where
  "anthropic_CompletionStream lib p req w =
     (if anthropic_apiKey p = [] then (Inl (APIKeyNotSet ''Anthropic''), w)
      else
        (case post lib (anthropic_endpoint p) (anthropic_headers True p)
                (marshal_anthropicRequest (anthropic_request True req)) w of
           (Inl err, w') \<Rightarrow> (Inl err, w')
         | (Inr resp, w') \<Rightarrow>
             (case open_body ''Anthropic'' resp of
                Inl err \<Rightarrow> (Inl err, w')
              | Inr body \<Rightarrow> (Inr (anthropic_new_stream body), w'))))"

subsection \<open>Google\<close>

record GeminiResponseStream =
  gS_reader :: bufReader
  gS_provider :: string
  gS_streamFinished :: bool

definition gemini_Recv_line :: "library \<Rightarrow> string \<Rightarrow> GeminiResponseStream \<times> world
    \<Rightarrow> (GeminiResponseStream \<times> world, error + CompletionResponse) step" where
  "gemini_Recv_line lib line sw =
     (case sw of (s, w) \<Rightarrow>
      if length line = 0 then Continue (s, w)
      else if \<not> HasPrefix line ''data: '' then Continue (s, w)
      else
        (let data = TrimPrefix line ''data: '' in
         if data = ''[DONE]'' then Return (Inl io_EOF) (s\<lparr>gS_streamFinished := True\<rparr>, w)
         else
           (case Unmarshal_geminiResponse lib data of
              None \<Rightarrow>
                if Contains data ''finishReason''
                then Return (Inl io_EOF) (s\<lparr>gS_streamFinished := True\<rparr>, w)
                else Continue (s, w)
            | Some chunkResp \<Rightarrow>
                (case Candidates chunkResp of
                   [] \<Rightarrow> Continue (s, w)
                 | candidate # _ \<Rightarrow>
                     (case time_Now w of
                        (now1, w1) \<Rightarrow>
                          (case time_Now w1 of
                             (now2, w2) \<Rightarrow>
                               Return
                                 (Inr (chunk_response (''google-'' @ Sprintf_d (UnixNano now1))
                                         (Unix now2) (gS_provider s)
                                         (gemini_text (gContent_Parts (gCand_Content candidate)))
                                         (gCand_FinishReason candidate)))
                                 (s, w2)))))))"

lemma gemini_Recv_line_reader:
  "gemini_Recv_line lib line (s, w) = Continue (s', w') \<Longrightarrow> gS_reader s' = gS_reader s"
  by (auto simp: gemini_Recv_line_def Let_def
      split: if_splits option.splits list.splits prod.splits)

function gemini_Recv_loop :: "library \<Rightarrow> GeminiResponseStream \<Rightarrow> world
    \<Rightarrow> (error + CompletionResponse) \<times> GeminiResponseStream \<times> world" where
  "gemini_Recv_loop lib s w =
     (case ReadLine (gS_reader s) of
        (Inl err, r) \<Rightarrow> (Inl err, s\<lparr>gS_reader := r\<rparr>, w)
      | (Inr line, r) \<Rightarrow>
          (case gemini_Recv_line lib line (s\<lparr>gS_reader := r\<rparr>, w) of
             Return res sw \<Rightarrow> (res, sw)
           | Continue (s', w') \<Rightarrow> gemini_Recv_loop lib s' w'))"
  by pat_completeness auto
termination
proof (relation "measure (\<lambda>(lib, s, w). unread (gS_reader s))")
  show "wf (measure (\<lambda>(lib, s, w). unread (gS_reader s)))" by simp
next
  fix lib s w x r line sw s' w'
  assume rl: "(x, r) = ReadLine (gS_reader s)" "x = Inr line"
    and st: "gemini_Recv_line lib line (s\<lparr>gS_reader := r\<rparr>, w) = Continue sw"
      "(s', w') = sw"
  from rl have "unread r < unread (gS_reader s)"
    using ReadLine_consumes[of "gS_reader s" line r] by simp
  moreover from st have "gS_reader s' = r"
    using gemini_Recv_line_reader[of lib line "s\<lparr>gS_reader := r\<rparr>" w s' w'] by simp
  ultimately show "((lib, s', w'), (lib, s, w)) \<in> measure (\<lambda>(lib, s, w). unread (gS_reader s))"
    by simp
qed

declare gemini_Recv_loop.simps [simp del]

definition gemini_Recv :: "library \<Rightarrow> GeminiResponseStream \<Rightarrow> world
    \<Rightarrow> (error + CompletionResponse) \<times> GeminiResponseStream \<times> world" where
  "gemini_Recv lib s w =
     (if gS_streamFinished s then (Inl io_EOF, s, w) else gemini_Recv_loop lib s w)"

definition gemini_new_stream :: "read_result list \<Rightarrow> GeminiResponseStream" where
  "gemini_new_stream body =
     \<lparr>gS_reader = newBufReader body, gS_provider = ''google'', gS_streamFinished = False\<rparr>"

definition google_CompletionStream :: "library \<Rightarrow> google_Provider \<Rightarrow> CompletionRequest
    \<Rightarrow> world \<Rightarrow> (error + GeminiResponseStream) \<times> world" where
  "google_CompletionStream lib p req w =
     (if google_apiKey p = [] then (Inl (APIKeyNotSet ''Google''), w)
      else
        (case post lib (google_url p (Model req) ''streamGenerateContent'') (google_headers True)
                (marshal_geminiRequest (google_request True req)) w of
           (Inl err, w') \<Rightarrow> (Inl err, w')
         | (Inr resp, w') \<Rightarrow>
             (case open_body ''Google'' resp of
                Inl err \<Rightarrow> (Inl err, w')
              | Inr body \<Rightarrow> (Inr (gemini_new_stream body), w'))))"

section \<open>The interfaces and the entry points of package llm\<close>

datatype ResponseStream =
    OpenAIStream OpenAIResponseStream
  | AnthropicStream AnthropicResponseStream
  | GeminiStream GeminiResponseStream

fun Provider_Completion :: "library \<Rightarrow> Provider \<Rightarrow> CompletionRequest \<Rightarrow> world
    \<Rightarrow> (error + CompletionResponse) \<times> world" where
  "Provider_Completion lib (OpenAI p) req w = openai_Completion lib p req w"
| "Provider_Completion lib (Anthropic p) req w = anthropic_Completion lib p req w"
| "Provider_Completion lib (Google p) req w = google_Completion lib p req w"

fun Provider_CompletionStream :: "library \<Rightarrow> Provider \<Rightarrow> CompletionRequest \<Rightarrow> world
    \<Rightarrow> (error + ResponseStream) \<times> world" where
  "Provider_CompletionStream lib (OpenAI p) req w =
     (case openai_CompletionStream lib p req w of (res, w') \<Rightarrow> (map_sum id OpenAIStream res, w'))"
| "Provider_CompletionStream lib (Anthropic p) req w =
     (case anthropic_CompletionStream lib p req w of
        (res, w') \<Rightarrow> (map_sum id AnthropicStream res, w'))"
| "Provider_CompletionStream lib (Google p) req w =
     (case google_CompletionStream lib p req w of
        (res, w') \<Rightarrow> (map_sum id GeminiStream res, w'))"

fun Recv :: "library \<Rightarrow> ResponseStream \<Rightarrow> world
    \<Rightarrow> (error + CompletionResponse) \<times> ResponseStream \<times> world" where
  "Recv lib (OpenAIStream s) w =
     (case openai_Recv lib s of (res, s') \<Rightarrow> (res, OpenAIStream s', w))"
| "Recv lib (AnthropicStream s) w =
     (case anthropic_Recv lib s w of (res, s', w') \<Rightarrow> (res, AnthropicStream s', w'))"
| "Recv lib (GeminiStream s) w =
     (case gemini_Recv lib s w of (res, s', w') \<Rightarrow> (res, GeminiStream s', w'))"

fun streamFinished :: "ResponseStream \<Rightarrow> bool" where
  "streamFinished (OpenAIStream s) = oaS_streamFinished s"
| "streamFinished (AnthropicStream s) = anS_streamFinished s"
| "streamFinished (GeminiStream s) = gS_streamFinished s"

fun stream_reader :: "ResponseStream \<Rightarrow> bufReader" where
  "stream_reader (OpenAIStream s) = oaS_reader s"
| "stream_reader (AnthropicStream s) = anS_reader s"
| "stream_reader (GeminiStream s) = gS_reader s"

definition Completion :: "library \<Rightarrow> registry \<Rightarrow> string \<Rightarrow> Message list
    \<Rightarrow> CompletionOption list \<Rightarrow> world \<Rightarrow> (error + CompletionResponse) \<times> world" where
  "Completion lib registeredProviders modelID messages opts w =
     (case getProviderForModel registeredProviders modelID of
        Inl err \<Rightarrow> (Inl err, w)
      | Inr (provider, modelName) \<Rightarrow>
          Provider_Completion lib provider
            (apply_options opts
               (zero_CompletionRequest\<lparr>Model := modelName, Messages := messages\<rparr>))
            w)"

definition CompletionStream :: "library \<Rightarrow> registry \<Rightarrow> string \<Rightarrow> Message list
    \<Rightarrow> CompletionOption list \<Rightarrow> world \<Rightarrow> (error + ResponseStream) \<times> world" where
  "CompletionStream lib registeredProviders modelID messages opts w =
     (case getProviderForModel registeredProviders modelID of
        Inl err \<Rightarrow> (Inl err, w)
      | Inr (provider, modelName) \<Rightarrow>
          Provider_CompletionStream lib provider
            (apply_options opts
               (zero_CompletionRequest
                  \<lparr>Model := modelName, Messages := messages, Stream := True\<rparr>))
            w)"

text \<open>
  Calling \<^verbatim>\<open>Recv\<close> again and again: the results of the first \<open>n\<close> calls, in order, and the
  stream and the world after them.
\<close>

fun Recv_times :: "nat \<Rightarrow> library \<Rightarrow> ResponseStream \<Rightarrow> world
    \<Rightarrow> (error + CompletionResponse) list \<times> ResponseStream \<times> world" where
  "Recv_times 0 lib s w = ([], s, w)"
| "Recv_times (Suc n) lib s w =
     (case Recv lib s w of
        (res, s', w') \<Rightarrow>
          (case Recv_times n lib s' w' of (rs, s'', w'') \<Rightarrow> (res # rs, s'', w'')))"

section \<open>The router\<close>

text \<open>
  Modelled from the spec: the package \<^verbatim>\<open>router\<close> (the types \<^verbatim>\<open>ModelRoute\<close> and \<^verbatim>\<open>Router\<close>,
  and the method \<^verbatim>\<open>Route\<close>) is not among the sources; only its callers are. A route has a
  task type, a qualified model id, a priority (an integer, higher is preferred) and an
  advertised ceiling of tokens; the configuration maps a task type to its routes, in the
  order of insertion, and has one fallback model.
\<close>

record ModelRoute =
  TaskType :: string
  ModelID :: string
  Priority :: int
  RouteMaxTokens :: int

record Router =
  routes :: "string \<Rightarrow> ModelRoute list option"
  fallbackModel :: string

text \<open>
  Modelled from the spec: the candidates of a task type, absent or empty alike, sorted by
  descending priority, the order of insertion breaking ties (the sort is stable).
\<close>

definition candidates :: "Router \<Rightarrow> string \<Rightarrow> ModelRoute list" where
  "candidates r taskType =
     (case routes r taskType of
        None \<Rightarrow> []
      | Some l \<Rightarrow> sort_key (\<lambda>c. - Priority c) l)"

text \<open>
  Modelled from the spec: the candidates are attempted in order through \<open>Completion\<close>; the
  first success is returned at once, a failure moves on to the next candidate. The function
  also returns the attempts it made, each with its result, in order.
\<close>

fun try_candidates :: "library \<Rightarrow> registry \<Rightarrow> ModelRoute list \<Rightarrow> Message list
    \<Rightarrow> CompletionOption list \<Rightarrow> world
    \<Rightarrow> CompletionResponse option \<times> (string \<times> (error + CompletionResponse)) list \<times> world" where
  "try_candidates lib reg [] messages opts w = (None, [], w)"
| "try_candidates lib reg (c # cs) messages opts w =
     (case Completion lib reg (ModelID c) messages opts w of
        (Inr resp, w') \<Rightarrow> (Some resp, [(ModelID c, Inr resp)], w')
      | (Inl err, w') \<Rightarrow>
          (case try_candidates lib reg cs messages opts w' of
             (res, attempts, w'') \<Rightarrow> (res, (ModelID c, Inl err) # attempts, w'')))"

text \<open>
  Modelled from the spec: \<^verbatim>\<open>Route\<close>. When no candidate has succeeded, the fallback model is
  attempted, and its result, response or error, is the result of the call.
\<close>

definition Route_attempts :: "library \<Rightarrow> registry \<Rightarrow> Router \<Rightarrow> string \<Rightarrow> Message list
    \<Rightarrow> CompletionOption list \<Rightarrow> world
    \<Rightarrow> (error + CompletionResponse) \<times> (string \<times> (error + CompletionResponse)) list \<times> world"
  where
  "Route_attempts lib reg r taskType messages opts w =
     (case try_candidates lib reg (candidates r taskType) messages opts w of
        (Some resp, attempts, w') \<Rightarrow> (Inr resp, attempts, w')
      | (None, attempts, w') \<Rightarrow>
          (case Completion lib reg (fallbackModel r) messages opts w' of
             (res, w'') \<Rightarrow> (res, attempts @ [(fallbackModel r, res)], w'')))"

definition Route :: "library \<Rightarrow> registry \<Rightarrow> Router \<Rightarrow> string \<Rightarrow> Message list
    \<Rightarrow> CompletionOption list \<Rightarrow> world \<Rightarrow> (error + CompletionResponse) \<times> world" where
  "Route lib reg r taskType messages opts w =
     (case Route_attempts lib reg r taskType messages opts w of
        (res, attempts, w') \<Rightarrow> (res, w'))"

text \<open>\<^verbatim>\<open>RouteCompletion\<close> of the root package hands its arguments to \<^verbatim>\<open>Route\<close>.\<close>

definition RouteCompletion :: "library \<Rightarrow> registry \<Rightarrow> Router \<Rightarrow> string \<Rightarrow> Message list
    \<Rightarrow> CompletionOption list \<Rightarrow> world \<Rightarrow> (error + CompletionResponse) \<times> world" where
  "RouteCompletion lib reg r taskType messages opts w = Route lib reg r taskType messages opts w"

text \<open>
  Calling \<open>Completion\<close> for each of a list of model identifiers in turn, whatever the results:
  the results in order and the world afterwards.
\<close>

fun Completion_each :: "library \<Rightarrow> registry \<Rightarrow> string list \<Rightarrow> Message list
    \<Rightarrow> CompletionOption list \<Rightarrow> world \<Rightarrow> (error + CompletionResponse) list \<times> world" where
  "Completion_each lib reg [] messages opts w = ([], w)"
| "Completion_each lib reg (m # ms) messages opts w =
     (case Completion lib reg m messages opts w of
        (res, w') \<Rightarrow>
          (case Completion_each lib reg ms messages opts w' of
             (rs, w'') \<Rightarrow> (res # rs, w'')))"

text \<open>The credential an adapter was built with, and the vendor's name in its messages.\<close>

fun apiKey :: "Provider \<Rightarrow> string" where
  "apiKey (OpenAI p) = openai_apiKey p"
| "apiKey (Anthropic p) = anthropic_apiKey p"
| "apiKey (Google p) = google_apiKey p"

fun vendor :: "Provider \<Rightarrow> string" where
  "vendor (OpenAI p) = ''OpenAI''"
| "vendor (Anthropic p) = ''Anthropic''"
| "vendor (Google p) = ''Google''"

text \<open>The member of a JSON object under a key, and the texts of the choices of a response.\<close>

definition json_member :: "json \<Rightarrow> string \<Rightarrow> json option" where
  "json_member j k = (case j of JObject members \<Rightarrow> members k | _ \<Rightarrow> None)"

definition contents :: "CompletionResponse \<Rightarrow> string list" where
  "contents resp = map (\<lambda>c. Content (ChoiceMessage c)) (Choices resp)"

text \<open>
  What the body of an Anthropic request is to carry under \<open>max_tokens\<close>, given the
  caller's request.
\<close>

definition max_tokens_to_send :: "CompletionRequest \<Rightarrow> json option" where
  "max_tokens_to_send req =
     (case MaxTokens req of
        None \<Rightarrow> Some (JInt 4096)
      | Some n \<Rightarrow> if n = 0 then None else Some (JInt n))"

section \<open>Concrete configurations\<close>

text \<open>A registry holding the OpenAI adapter alone, built with a credential.\<close>

definition demo_registry :: registry where
  "demo_registry = RegisterProvider (OpenAI (openai_NewProviderWithKey ''sk-test'')) Map.empty"

text \<open>
  Response bodies of the three vendors with a usage block that has no total, and the
  structs \<^verbatim>\<open>json.Unmarshal\<close> fills from them: a field a body does not mention keeps its
  zero value.
\<close>

definition demo_openai_body :: string where
  \<open>demo_openai_body = ''{"id":"c1","usage":{"prompt_tokens":5,"completion_tokens":7}}''\<close>

definition demo_openAIResponse :: openAIResponse where
  "demo_openAIResponse =
     \<lparr>oaResp_ID = ''c1'', oaResp_Object = [], oaResp_Created = 0, oaResp_Model = [],
      oaResp_Choices = [],
      oaResp_Usage =
        \<lparr>oaUsage_PromptTokens = 5, oaUsage_CompletionTokens = 7, oaUsage_TotalTokens = 0\<rparr>,
      oaResp_SystemFingerprint = []\<rparr>"

definition demo_anthropic_body :: string where
  \<open>demo_anthropic_body =
     ''{"id":"m1","content":[{"type":"text","text":"Hi"}],"usage":{"input_tokens":5,"output_tokens":7}}''\<close>

definition demo_anthropicResponse :: anthropicResponse where
  "demo_anthropicResponse =
     \<lparr>anResp_ID = ''m1'', anResp_Type = [], anResp_Role = [],
      anResp_Content = [\<lparr>anContent_Type = ''text'', anContent_Text = ''Hi''\<rparr>],
      anResp_Model = [], anResp_StopReason = [], anResp_StopSequence = [],
      anResp_Usage = \<lparr>InputTokens = 5, OutputTokens = 7\<rparr>\<rparr>"

definition demo_gemini_body :: string where
  \<open>demo_gemini_body =
     ''{"candidates":[{"content":{"parts":[{"text":"Hi"}]}}],"usage":{"promptTokenCount":5,"candidatesTokenCount":7}}''\<close>

definition demo_geminiResponse :: geminiResponse where
  "demo_geminiResponse =
     \<lparr>Candidates =
        [\<lparr>gCand_Content = \<lparr>gContent_Role = [], gContent_Parts = [\<lparr>gPart_Text = ''Hi''\<rparr>]\<rparr>,
          gCand_FinishReason = [], gCand_Index = 0\<rparr>],
      PromptFeedback = None,
      gResp_Usage =
        \<lparr>PromptTokenCount = 5, CandidatesTokenCount = 7, TotalTokenCount = 0\<rparr>\<rparr>"

text \<open>
  Three events of an OpenAI stream: the role alone, then two pieces of text, the second with
  the finish reason of its choice.
\<close>

definition demo_event_role :: string where
  \<open>demo_event_role = ''{"choices":[{"delta":{"role":"assistant"}}]}''\<close>

definition demo_event_Hi :: string where
  \<open>demo_event_Hi = ''{"choices":[{"delta":{"content":"Hi"}}]}''\<close>

definition demo_event_there :: string where
  \<open>demo_event_there = ''{"choices":[{"delta":{"content":" there"},"finish_reason":"stop"}]}''\<close>

definition demo_chunk :: "string \<Rightarrow> string \<Rightarrow> string \<Rightarrow> openAIStreamChunk" where
  "demo_chunk role content finishReason =
     \<lparr>oaChunk_ID = [], oaChunk_Object = [], oaChunk_Created = 0, oaChunk_Model = [],
      oaChunk_Choices =
        [\<lparr>oaSChoice_Index = 0,
          oaSChoice_Delta = \<lparr>oaDelta_Role = role, oaDelta_Content = content\<rparr>,
          oaSChoice_FinishReason = finishReason\<rparr>],
      oaChunk_SystemFingerprint = []\<rparr>"

text \<open>
  A library that accepts every URL and decodes exactly the bodies and events above; every
  other text fails to decode.
\<close>

definition demo_library :: library where
  "demo_library =
     \<lparr>url_ok = (\<lambda>url. True),
      Unmarshal_openAIResponse = [demo_openai_body \<mapsto> demo_openAIResponse],
      Unmarshal_anthropicResponse = [demo_anthropic_body \<mapsto> demo_anthropicResponse],
      Unmarshal_geminiResponse = [demo_gemini_body \<mapsto> demo_geminiResponse],
      Unmarshal_openAIStreamChunk =
        [demo_event_role \<mapsto> demo_chunk ''assistant'' [] [],
         demo_event_Hi \<mapsto> demo_chunk [] ''Hi'' [],
         demo_event_there \<mapsto> demo_chunk [] '' there'' ''stop''],
      Unmarshal_anthropicEvent = Map.empty\<rparr>"

text \<open>
  A world whose server answers 200 with the body above to a request to the OpenAI or the
  Anthropic endpoint or to a Gemini model, never mind what the request asks, and refuses
  every other connection. Its clock shows \<open>n\<close> nanoseconds after the epoch at the reading
  number \<open>n\<close>.
\<close>

definition demo_server :: "http_request list \<Rightarrow> http_request \<Rightarrow> error + http_response" where
  "demo_server history r =
     (if URL r = openai_defaultAPIEndpoint
      then Inr \<lparr>StatusCode = 200, Status = ''200 OK'',
                ResponseBody = [(demo_openai_body, None)]\<rparr>
      else if URL r = anthropic_defaultAPIEndpoint
      then Inr \<lparr>StatusCode = 200, Status = ''200 OK'',
                ResponseBody = [(demo_anthropic_body, None)]\<rparr>
      else if HasPrefix (URL r) google_defaultAPIEndpoint
      then Inr \<lparr>StatusCode = 200, Status = ''200 OK'',
                ResponseBody = [(demo_gemini_body, None)]\<rparr>
      else Inl (NetError ''connection refused''))"

definition demo_world :: world where
  "demo_world =
     \<lparr>server = demo_server, requests = [],
      clock = (\<lambda>n. int n), ticks = 0\<rparr>"

definition demo_messages :: "Message list" where
  "demo_messages = [\<lparr>Role = ''user'', Content = ''Hello''\<rparr>]"

definition demo_request :: CompletionRequest where
  "demo_request = zero_CompletionRequest\<lparr>Model := ''gpt-4o'', Messages := demo_messages\<rparr>"

text \<open>The registry with the three adapters, each built with a credential.\<close>

definition demo_providers :: registry where
  "demo_providers =
     RegisterProvider (OpenAI (openai_NewProviderWithKey ''sk-test''))
       (RegisterProvider (Google (google_NewProviderWithKey ''g-test''))
         (RegisterProvider (Anthropic (anthropic_NewProviderWithKey ''a-test'')) Map.empty))"

text \<open>
  The events as a server sends them, each in a read of its own: the data marker, the
  payload, and an empty line; the end sentinel last.
\<close>

definition sse :: "string \<Rightarrow> read_result" where
  "sse payload = (''data: '' @ payload @ [CHR 0x0A, CHR 0x0A], None)"

definition demo_events :: "read_result list" where
  "demo_events = [sse demo_event_role, sse demo_event_Hi, sse demo_event_there, sse ''[DONE]'']"

text \<open>A Google stream that is marked finished while its connection still has data.\<close>

definition finished_stream :: ResponseStream where
  "finished_stream =
     GeminiStream ((gemini_new_stream [(''data: late'', None)])\<lparr>gS_streamFinished := True\<rparr>)"

text \<open>The same events arriving in a single read.\<close>

definition demo_events_in_one_read :: "read_result list" where
  "demo_events_in_one_read = [(concat (map fst demo_events), None)]"

text \<open>
  Two payloads that do not decode as a Gemini response: an event cut off in the middle, and
  a JSON document of the wrong shape.
\<close>

definition demo_cut_off :: string where
  \<open>demo_cut_off = ''{"candidates":[{"finishReason":''\<close>

definition demo_wrong_shape :: string where
  \<open>demo_wrong_shape = ''{"candidates":5}''\<close>

text \<open>
  The same bytes again, with the end of a read inside the data line of the second event;
  and delivered one byte at a read.
\<close>

definition demo_events_split :: "read_result list" where
  \<open>demo_events_split =
     [sse demo_event_role,
      (''data: {"cho'', None),
      (''ices":[{"delta":{"content":"Hi"}}]}'' @ [CHR 0x0A, CHR 0x0A], None),
      sse demo_event_there,
      sse ''[DONE]'']\<close>

definition demo_events_bytewise :: "read_result list" where
  "demo_events_bytewise = map (\<lambda>c. ([c], None)) (concat (map fst demo_events))"

text \<open>
  A router with three routes for one task type, inserted in ascending order of priority,
  and a registry in which the OpenAI adapter has no credential.
\<close>

definition demo_router :: Router where
  "demo_router =
     \<lparr>routes =
        [''general'' \<mapsto>
           [\<lparr>TaskType = ''general'', ModelID = ''unknownvendor/x'', Priority = 1,
              RouteMaxTokens = 4096\<rparr>,
            \<lparr>TaskType = ''general'', ModelID = ''anthropic/claude-2.1'', Priority = 2,
              RouteMaxTokens = 200000\<rparr>,
            \<lparr>TaskType = ''general'', ModelID = ''openai/gpt-4o'', Priority = 3,
              RouteMaxTokens = 8192\<rparr>]],
      fallbackModel = ''google/gemini-2.0-flash''\<rparr>"

definition demo_providers_without_openai_key :: registry where
  "demo_providers_without_openai_key =
     RegisterProvider (OpenAI (openai_NewProviderWithKey []))
       (RegisterProvider (Google (google_NewProviderWithKey ''g-test''))
         (RegisterProvider (Anthropic (anthropic_NewProviderWithKey ''a-test'')) Map.empty))"

section \<open>Properties of identifier resolution\<close>

lemma Index_slash_None: "Index_slash s = None \<longleftrightarrow> CHR ''/'' \<notin> set s"
  by (induction s) auto

lemma Index_slash_append:
  "CHR ''/'' \<notin> set p \<Longrightarrow> Index_slash (p @ CHR ''/'' # m) = Some (length p)"
  by (induction p) auto

lemma parseModelIdentifier_split:
  "CHR ''/'' \<notin> set p \<Longrightarrow> parseModelIdentifier (p @ CHR ''/'' # m) = Inr (p, m)"
  by (simp add: parseModelIdentifier_def SplitN_slash_2_def Index_slash_append)

lemma parseModelIdentifier_no_slash:
  "CHR ''/'' \<notin> set s \<Longrightarrow> parseModelIdentifier s = Inl (InvalidIdentifier s)"
  using Index_slash_None[of s] by (simp add: parseModelIdentifier_def SplitN_slash_2_def)

lemma first_slash_decomposition:
  "CHR ''/'' \<in> set s \<Longrightarrow> \<exists>p m. s = p @ CHR ''/'' # m \<and> CHR ''/'' \<notin> set p"
  by (metis split_list_first)

text \<open>
  Claim C2. Resolving a qualified model identifier fails with the invalid-identifier error
  when the string has no \<open>/\<close>; with the provider-not-found error when the part before the
  first \<open>/\<close> names no registered provider; with the model-unsupported error when that
  provider's \<open>SupportsModel\<close> rejects the remainder; and otherwise returns the provider
  together with the bare model name.
\<close>

theorem getProviderForModel_outcomes:
  "(CHR ''/'' \<notin> set s \<longrightarrow> getProviderForModel reg s = Inl (InvalidIdentifier s)) \<and>
   (CHR ''/'' \<notin> set p \<and> reg p = None \<longrightarrow>
      getProviderForModel reg (p @ CHR ''/'' # m) = Inl (ProviderNotFound p)) \<and>
   (CHR ''/'' \<notin> set p \<and> reg p = Some provider \<and> \<not> SupportsModel provider m \<longrightarrow>
      getProviderForModel reg (p @ CHR ''/'' # m) = Inl (ModelUnsupported m p)) \<and>
   (CHR ''/'' \<notin> set p \<and> reg p = Some provider \<and> SupportsModel provider m \<longrightarrow>
      getProviderForModel reg (p @ CHR ''/'' # m) = Inr (provider, m))"
  by (simp add: getProviderForModel_def parseModelIdentifier_split
      parseModelIdentifier_no_slash)

theorem getProviderForModel_outcomes_witness:
  "getProviderForModel demo_registry ''gpt-4o'' = Inl (InvalidIdentifier ''gpt-4o'') \<and>
   getProviderForModel demo_registry ''unknownvendor/x'' = Inl (ProviderNotFound ''unknownvendor'') \<and>
   getProviderForModel demo_registry ''openai/not-a-real-model''
     = Inl (ModelUnsupported ''not-a-real-model'' ''openai'') \<and>
   getProviderForModel demo_registry ''openai/gpt-4o''
     = Inr (OpenAI (openai_NewProviderWithKey ''sk-test''), ''gpt-4o'')"
proof -
  have reg: "demo_registry ''openai'' = Some (OpenAI (openai_NewProviderWithKey ''sk-test''))"
    "demo_registry ''unknownvendor'' = None"
    by (simp_all add: demo_registry_def RegisterProvider_def)
  have sup: "\<not> SupportsModel (OpenAI (openai_NewProviderWithKey ''sk-test'')) ''not-a-real-model''"
    "SupportsModel (OpenAI (openai_NewProviderWithKey ''sk-test'')) ''gpt-4o''"
    by (simp_all add: openai_SupportsModel_def openai_NewProviderWithKey_def)
  show ?thesis
    using getProviderForModel_outcomes [where s = "''gpt-4o''" and reg = demo_registry
        and p = "''unknownvendor''" and m = "''x''"]
      getProviderForModel_outcomes [where s = "''gpt-4o''" and reg = demo_registry
        and p = "''openai''" and m = "''not-a-real-model''"
        and provider = "OpenAI (openai_NewProviderWithKey ''sk-test'')"]
      getProviderForModel_outcomes [where s = "''gpt-4o''" and reg = demo_registry
        and p = "''openai''" and m = "''gpt-4o''"
        and provider = "OpenAI (openai_NewProviderWithKey ''sk-test'')"]
      reg sup
    by simp
qed

text \<open>
  Claim C8. An identifier with at least one \<open>/\<close> is cut at the first one only: the provider
  name is the prefix before it and the model name is the whole remainder, which may itself
  contain \<open>/\<close>; resolution then looks that prefix up and asks the provider about that
  remainder.
\<close>

theorem parseModelIdentifier_first_slash:
  "CHR ''/'' \<in> set s \<Longrightarrow>
     \<exists>p m. s = p @ CHR ''/'' # m \<and> CHR ''/'' \<notin> set p \<and>
       parseModelIdentifier s = Inr (p, m) \<and>
       getProviderForModel reg s =
         (case reg p of
            None \<Rightarrow> Inl (ProviderNotFound p)
          | Some provider \<Rightarrow>
              if SupportsModel provider m then Inr (provider, m)
              else Inl (ModelUnsupported m p))"
proof -
  assume "CHR ''/'' \<in> set s"
  then obtain p m where s: "s = p @ CHR ''/'' # m" and p: "CHR ''/'' \<notin> set p"
    using first_slash_decomposition by blast
  have "parseModelIdentifier s = Inr (p, m)"
    using s p by (simp add: parseModelIdentifier_split)
  then show ?thesis
    using s p by (auto simp: getProviderForModel_def split: option.splits)
qed

theorem parseModelIdentifier_first_slash_witness:
  "CHR ''/'' \<in> set ''p/a/b'' \<and> parseModelIdentifier ''p/a/b'' = Inr (''p'', ''a/b'')"
proof -
  have h: "CHR ''/'' \<in> set ''p/a/b''" by simp
  from parseModelIdentifier_first_slash [OF h, of Map.empty]
  obtain p m where pm: "''p/a/b'' = p @ CHR ''/'' # m" "CHR ''/'' \<notin> set p"
    "parseModelIdentifier ''p/a/b'' = Inr (p, m)" by blast
  show ?thesis using h pm(3) by (simp add: parseModelIdentifier_def SplitN_slash_2_def)
qed

section \<open>Evaluating the concrete configurations\<close>

lemmas demo_defs =
  demo_library_def demo_world_def demo_server_def demo_providers_def demo_messages_def
  demo_request_def RegisterProvider_def
  openai_NewProviderWithKey_def anthropic_NewProviderWithKey_def google_NewProviderWithKey_def

lemmas pipeline_defs =
  post_def client_Do_def successful_body_def open_body_def time_Now_def StatusOK_def

lemma demo_anthropic_run:
  "fst (anthropic_Completion demo_library (anthropic_NewProviderWithKey ''a-test'')
          demo_request demo_world)
   = Inr (anthropic_response demo_anthropicResponse 0)"
  by (simp add: anthropic_Completion_def demo_defs pipeline_defs marshal_anthropicRequest_def
      anthropic_request_def float64_is_finite_def zero_CompletionRequest_def
      anthropic_defaultAPIEndpoint_def openai_defaultAPIEndpoint_def
      split: prod.splits)

lemma demo_openai_run:
  "fst (openai_Completion demo_library (openai_NewProviderWithKey ''sk-test'')
          demo_request demo_world)
   = Inr (openai_response demo_openAIResponse)"
  by (simp add: openai_Completion_def demo_defs pipeline_defs marshal_openAIRequest_def
      openai_request_def finite_or_nil_def zero_CompletionRequest_def
      openai_defaultAPIEndpoint_def Let_def
      split: prod.splits)

section \<open>Options\<close>

lemma apply_options_append:
  "apply_options (xs @ ys) req = apply_options ys (apply_options xs req)"
  by (induction xs arbitrary: req) simp_all

text \<open>
  Against claim C7 as it is written: two applications of \<^verbatim>\<open>WithExtraParams\<close> in sequence do
  not leave what the later one alone would. The key \<open>a\<close> of the earlier application is still
  there after the later one, which sets only \<open>b\<close>.
\<close>

theorem WithExtraParams_keeps_earlier_keys:
  "WithExtraParams [''b'' \<mapsto> AnyInt 2]
     (WithExtraParams [''a'' \<mapsto> AnyInt 1] zero_CompletionRequest)
   \<noteq> WithExtraParams [''b'' \<mapsto> AnyInt 2] zero_CompletionRequest"
proof
  assume "WithExtraParams [''b'' \<mapsto> AnyInt 2]
            (WithExtraParams [''a'' \<mapsto> AnyInt 1] zero_CompletionRequest)
          = WithExtraParams [''b'' \<mapsto> AnyInt 2] zero_CompletionRequest"
  then have "ExtraParams (WithExtraParams [''b'' \<mapsto> AnyInt 2]
               (WithExtraParams [''a'' \<mapsto> AnyInt 1] zero_CompletionRequest))
             = ExtraParams (WithExtraParams [''b'' \<mapsto> AnyInt 2] zero_CompletionRequest)"
    by simp
  then have "(Map.empty ++ [''a'' \<mapsto> AnyInt 1] ++ [''b'' \<mapsto> AnyInt 2])
             = (Map.empty ++ [''b'' \<mapsto> AnyInt 2] :: string \<Rightarrow> any option)"
    by (simp add: WithExtraParams_def zero_CompletionRequest_def)
  then have "(Map.empty ++ [''a'' \<mapsto> AnyInt 1] ++ [''b'' \<mapsto> AnyInt 2]) ''a''
             = (Map.empty ++ [''b'' \<mapsto> AnyInt 2] :: string \<Rightarrow> any option) ''a''"
    by (rule arg_cong)
  then show False by simp
qed

text \<open>
  Claim C7, amended. Every option sets the field it owns and leaves every other field of
  the request as it was: the result is the request with that one field replaced. For
  \<^verbatim>\<open>WithTemperature\<close>, \<^verbatim>\<open>WithMaxTokens\<close>, \<^verbatim>\<open>WithTopP\<close> and \<^verbatim>\<open>WithUser\<close>, a later application
  replaces what an earlier one on the same field has set. \<^verbatim>\<open>WithExtraParams\<close> merges: after
  two applications the map holds the entries of both, the later one winning on a key they
  share. Options are applied in the order of the call.
\<close>

theorem options_frame_and_override:
  "Temperature (WithTemperature t req) = Some t \<and>
   WithTemperature t req = req\<lparr>Temperature := Temperature (WithTemperature t req)\<rparr> \<and>
   MaxTokens (WithMaxTokens n req) = Some n \<and>
   WithMaxTokens n req = req\<lparr>MaxTokens := MaxTokens (WithMaxTokens n req)\<rparr> \<and>
   TopP (WithTopP t req) = Some t \<and>
   WithTopP t req = req\<lparr>TopP := TopP (WithTopP t req)\<rparr> \<and>
   User (WithUser u req) = u \<and>
   WithUser u req = req\<lparr>User := User (WithUser u req)\<rparr> \<and>
   ExtraParams (WithExtraParams params req)
     = Some ((case ExtraParams req of None \<Rightarrow> Map.empty | Some m \<Rightarrow> m) ++ params) \<and>
   WithExtraParams params req
     = req\<lparr>ExtraParams := ExtraParams (WithExtraParams params req)\<rparr> \<and>
   WithTemperature t' (WithTemperature t req) = WithTemperature t' req \<and>
   WithMaxTokens n' (WithMaxTokens n req) = WithMaxTokens n' req \<and>
   WithTopP t' (WithTopP t req) = WithTopP t' req \<and>
   WithUser u' (WithUser u req) = WithUser u' req \<and>
   ExtraParams (WithExtraParams params' (WithExtraParams params req))
     = Some ((case ExtraParams req of None \<Rightarrow> Map.empty | Some m \<Rightarrow> m) ++ params ++ params') \<and>
   apply_options (opts @ [opt]) req = opt (apply_options opts req)"
  by (simp add: WithTemperature_def WithMaxTokens_def WithTopP_def WithUser_def
      WithExtraParams_def apply_options_append)

section \<open>A finished stream\<close>

lemma Recv_finished:
  "streamFinished s \<Longrightarrow> Recv lib s w = (Inl io_EOF, s, w)"
  by (cases s) (simp_all add: openai_Recv_def anthropic_Recv_def gemini_Recv_def)

text \<open>
  Claim C9. Once a stream of any of the three vendors is marked finished, \<open>Recv\<close> returns
  end-of-sequence at once: the stream, with its connection and its buffer, and the world are
  as before the call, so nothing was read. Hence every later call does the same, and none
  returns a chunk.
\<close>

theorem Recv_after_finished:
  "streamFinished s \<Longrightarrow>
     Recv lib s w = (Inl io_EOF, s, w) \<and>
     Recv_times n lib s w = (replicate n (Inl io_EOF), s, w)"
proof (induction n)
  case 0
  then show ?case by (simp add: Recv_finished)
next
  case (Suc n)
  then show ?case by (simp add: Recv_finished)
qed

theorem Recv_after_finished_witness:
  "streamFinished finished_stream \<and>
   Recv_times 3 demo_library finished_stream demo_world
     = ([Inl io_EOF, Inl io_EOF, Inl io_EOF], finished_stream, demo_world)"
proof -
  have h: "streamFinished finished_stream" by (simp add: finished_stream_def)
  show ?thesis
    using h Recv_after_finished [OF h, of demo_library demo_world 3]
    by (simp add: numeral_3_eq_3)
qed

section \<open>A missing credential\<close>

text \<open>
  Claim C6. Building an adapter with an empty credential gives an adapter (the constructors
  return no error); with an empty credential, \<open>Completion\<close> and \<open>CompletionStream\<close> of each
  of the three adapters fail with the error that the API key is not set, and the world is as
  before the call: no request was made.
\<close>

theorem missing_credential_at_call_time:
  "apiKey (OpenAI (openai_NewProviderWithKey [])) = [] \<and>
   apiKey (Anthropic (anthropic_NewProviderWithKey [])) = [] \<and>
   apiKey (Google (google_NewProviderWithKey [])) = [] \<and>
   (apiKey provider = [] \<longrightarrow>
      Provider_Completion lib provider req w = (Inl (APIKeyNotSet (vendor provider)), w) \<and>
      Provider_CompletionStream lib provider req w = (Inl (APIKeyNotSet (vendor provider)), w))"
  by (cases provider)
    (simp_all add: openai_NewProviderWithKey_def anthropic_NewProviderWithKey_def
      google_NewProviderWithKey_def openai_Completion_def anthropic_Completion_def
      google_Completion_def openai_CompletionStream_def anthropic_CompletionStream_def
      google_CompletionStream_def)

theorem missing_credential_at_call_time_witness:
  "Provider_Completion demo_library (Anthropic (anthropic_NewProvider Map.empty))
     demo_request demo_world
     = (Inl (APIKeyNotSet ''Anthropic''), demo_world) \<and>
   Provider_CompletionStream demo_library (Anthropic (anthropic_NewProvider Map.empty))
     demo_request demo_world
     = (Inl (APIKeyNotSet ''Anthropic''), demo_world)"
proof -
  have h: "apiKey (Anthropic (anthropic_NewProvider Map.empty)) = []"
    by (simp add: anthropic_NewProvider_def anthropic_NewProviderWithKey_def Getenv_def)
  show ?thesis
    using h missing_credential_at_call_time
      [where provider = "Anthropic (anthropic_NewProvider Map.empty)" and lib = demo_library
        and req = demo_request and w = demo_world]
    by simp
qed

section \<open>Token usage of a completion\<close>

text \<open>
  A completion that succeeds has made one request, read the whole body of the server's
  answer to it and decoded that body; the usage of the response comes from the struct
  decoded.
\<close>

lemma anthropic_Completion_usage_of_body:
  "fst (anthropic_Completion lib p req w) = Inr resp \<Longrightarrow>
     \<exists>request httpResp body r.
       requests (snd (anthropic_Completion lib p req w)) = requests w @ [request] \<and>
       server w (requests w) request = Inr httpResp \<and>
       ReadAll (ResponseBody httpResp) = (body, None) \<and>
       Unmarshal_anthropicResponse lib body = Some r \<and>
       RawResponse resp = RawAnthropic r \<and>
       PromptTokens (Usage resp) = InputTokens (anResp_Usage r) \<and>
       CompletionTokens (Usage resp) = OutputTokens (anResp_Usage r) \<and>
       TotalTokens (Usage resp) = InputTokens (anResp_Usage r) + OutputTokens (anResp_Usage r)"
  by (auto simp: anthropic_Completion_def anthropic_response_def post_def client_Do_def
      successful_body_def time_Now_def
      split: if_splits prod.splits sum.splits option.splits)
    (blast+)?

lemma openai_Completion_usage_of_body:
  "fst (openai_Completion lib p req w) = Inr resp \<Longrightarrow>
     \<exists>request httpResp body r.
       requests (snd (openai_Completion lib p req w)) = requests w @ [request] \<and>
       server w (requests w) request = Inr httpResp \<and>
       ReadAll (ResponseBody httpResp) = (body, None) \<and>
       Unmarshal_openAIResponse lib body = Some r \<and>
       RawResponse resp = RawOpenAI r \<and>
       PromptTokens (Usage resp) = oaUsage_PromptTokens (oaResp_Usage r) \<and>
       CompletionTokens (Usage resp) = oaUsage_CompletionTokens (oaResp_Usage r) \<and>
       TotalTokens (Usage resp) = oaUsage_TotalTokens (oaResp_Usage r)"
  by (auto simp: openai_Completion_def openai_response_def post_def client_Do_def
      successful_body_def
      split: if_splits prod.splits sum.splits option.splits)
    (blast+)?

lemma google_Completion_usage_of_body:
  "fst (google_Completion lib p req w) = Inr resp \<Longrightarrow>
     \<exists>request httpResp body r.
       requests (snd (google_Completion lib p req w)) = requests w @ [request] \<and>
       server w (requests w) request = Inr httpResp \<and>
       ReadAll (ResponseBody httpResp) = (body, None) \<and>
       Unmarshal_geminiResponse lib body = Some r \<and>
       RawResponse resp = RawGemini r \<and>
       PromptTokens (Usage resp) = PromptTokenCount (gResp_Usage r) \<and>
       CompletionTokens (Usage resp) = CandidatesTokenCount (gResp_Usage r) \<and>
       TotalTokens (Usage resp) = TotalTokenCount (gResp_Usage r)"
  by (auto simp: google_Completion_def google_response_def post_def client_Do_def
      successful_body_def time_Now_def
      split: if_splits prod.splits sum.splits option.splits)
    (blast+)?

text \<open>
  Against claim C3 as it is written: the OpenAI adapter answers a body whose usage block
  reports 5 prompt tokens and 7 completion tokens and no total with a response whose total
  is 0, not 12.
\<close>

theorem openai_total_not_recomputed:
  "fst (openai_Completion demo_library (openai_NewProviderWithKey ''sk-test'')
          demo_request demo_world)
     = Inr (openai_response demo_openAIResponse) \<and>
   PromptTokens (Usage (openai_response demo_openAIResponse)) = 5 \<and>
   CompletionTokens (Usage (openai_response demo_openAIResponse)) = 7 \<and>
   TotalTokens (Usage (openai_response demo_openAIResponse)) = 0 \<and>
   TotalTokens (Usage (openai_response demo_openAIResponse))
     \<noteq> PromptTokens (Usage (openai_response demo_openAIResponse))
       + CompletionTokens (Usage (openai_response demo_openAIResponse))"
  by (simp add: demo_openai_run openai_response_def demo_openAIResponse_def)

text \<open>
  Claim C3, amended. Every response of a \<open>Completion\<close> comes from the struct that the
  adapter decoded from the body of the server's answer to the one request it made. The
  Anthropic adapter copies the input and the output tokens of that struct and sets the total
  to their sum (in Go's \<^verbatim>\<open>int\<close>), so that the total is the prompt plus the completion tokens
  in every response of its. The OpenAI and the Google adapter copy the three numbers of the
  decoded usage block as they are, a number the body leaves out being 0: they do not
  recompute the total, which is the sum of the other two exactly when the vendor's own
  numbers say so.
\<close>

theorem usage_total_by_adapter:
  "(fst (anthropic_Completion lib pa req w) = Inr resp \<longrightarrow>
      TotalTokens (Usage resp) = PromptTokens (Usage resp) + CompletionTokens (Usage resp) \<and>
      (\<exists>request httpResp body r.
         requests (snd (anthropic_Completion lib pa req w)) = requests w @ [request] \<and>
         server w (requests w) request = Inr httpResp \<and>
         ReadAll (ResponseBody httpResp) = (body, None) \<and>
         Unmarshal_anthropicResponse lib body = Some r \<and>
         RawResponse resp = RawAnthropic r \<and>
         PromptTokens (Usage resp) = InputTokens (anResp_Usage r) \<and>
         CompletionTokens (Usage resp) = OutputTokens (anResp_Usage r) \<and>
         TotalTokens (Usage resp)
           = InputTokens (anResp_Usage r) + OutputTokens (anResp_Usage r))) \<and>
   (fst (openai_Completion lib po req w) = Inr resp \<longrightarrow>
      (\<exists>request httpResp body r.
         requests (snd (openai_Completion lib po req w)) = requests w @ [request] \<and>
         server w (requests w) request = Inr httpResp \<and>
         ReadAll (ResponseBody httpResp) = (body, None) \<and>
         Unmarshal_openAIResponse lib body = Some r \<and>
         RawResponse resp = RawOpenAI r \<and>
         PromptTokens (Usage resp) = oaUsage_PromptTokens (oaResp_Usage r) \<and>
         CompletionTokens (Usage resp) = oaUsage_CompletionTokens (oaResp_Usage r) \<and>
         TotalTokens (Usage resp) = oaUsage_TotalTokens (oaResp_Usage r))) \<and>
   (fst (google_Completion lib pg req w) = Inr resp \<longrightarrow>
      (\<exists>request httpResp body r.
         requests (snd (google_Completion lib pg req w)) = requests w @ [request] \<and>
         server w (requests w) request = Inr httpResp \<and>
         ReadAll (ResponseBody httpResp) = (body, None) \<and>
         Unmarshal_geminiResponse lib body = Some r \<and>
         RawResponse resp = RawGemini r \<and>
         PromptTokens (Usage resp) = PromptTokenCount (gResp_Usage r) \<and>
         CompletionTokens (Usage resp) = CandidatesTokenCount (gResp_Usage r) \<and>
         TotalTokens (Usage resp) = TotalTokenCount (gResp_Usage r)))"
proof (intro conjI impI)
  assume a: "fst (anthropic_Completion lib pa req w) = Inr resp"
  from anthropic_Completion_usage_of_body[OF a]
  show "TotalTokens (Usage resp) = PromptTokens (Usage resp) + CompletionTokens (Usage resp)"
    by auto
  from anthropic_Completion_usage_of_body[OF a]
  show "\<exists>request httpResp body r.
         requests (snd (anthropic_Completion lib pa req w)) = requests w @ [request] \<and>
         server w (requests w) request = Inr httpResp \<and>
         ReadAll (ResponseBody httpResp) = (body, None) \<and>
         Unmarshal_anthropicResponse lib body = Some r \<and>
         RawResponse resp = RawAnthropic r \<and>
         PromptTokens (Usage resp) = InputTokens (anResp_Usage r) \<and>
         CompletionTokens (Usage resp) = OutputTokens (anResp_Usage r) \<and>
         TotalTokens (Usage resp)
           = InputTokens (anResp_Usage r) + OutputTokens (anResp_Usage r)" .
next
  assume "fst (openai_Completion lib po req w) = Inr resp"
  then show "\<exists>request httpResp body r.
         requests (snd (openai_Completion lib po req w)) = requests w @ [request] \<and>
         server w (requests w) request = Inr httpResp \<and>
         ReadAll (ResponseBody httpResp) = (body, None) \<and>
         Unmarshal_openAIResponse lib body = Some r \<and>
         RawResponse resp = RawOpenAI r \<and>
         PromptTokens (Usage resp) = oaUsage_PromptTokens (oaResp_Usage r) \<and>
         CompletionTokens (Usage resp) = oaUsage_CompletionTokens (oaResp_Usage r) \<and>
         TotalTokens (Usage resp) = oaUsage_TotalTokens (oaResp_Usage r)"
    by (rule openai_Completion_usage_of_body)
next
  assume "fst (google_Completion lib pg req w) = Inr resp"
  then show "\<exists>request httpResp body r.
         requests (snd (google_Completion lib pg req w)) = requests w @ [request] \<and>
         server w (requests w) request = Inr httpResp \<and>
         ReadAll (ResponseBody httpResp) = (body, None) \<and>
         Unmarshal_geminiResponse lib body = Some r \<and>
         RawResponse resp = RawGemini r \<and>
         PromptTokens (Usage resp) = PromptTokenCount (gResp_Usage r) \<and>
         CompletionTokens (Usage resp) = CandidatesTokenCount (gResp_Usage r) \<and>
         TotalTokens (Usage resp) = TotalTokenCount (gResp_Usage r)"
    by (rule google_Completion_usage_of_body)
qed

theorem usage_total_by_adapter_witness:
  "fst (anthropic_Completion demo_library (anthropic_NewProviderWithKey ''a-test'')
          demo_request demo_world)
     = Inr (anthropic_response demo_anthropicResponse 0) \<and>
   TotalTokens (Usage (anthropic_response demo_anthropicResponse 0)) = 12 \<and>
   fst (openai_Completion demo_library (openai_NewProviderWithKey ''sk-test'')
          demo_request demo_world)
     = Inr (openai_response demo_openAIResponse) \<and>
   TotalTokens (Usage (openai_response demo_openAIResponse))
     = oaUsage_TotalTokens (oaResp_Usage demo_openAIResponse)"
proof -
  have run: "fst (anthropic_Completion demo_library (anthropic_NewProviderWithKey ''a-test'')
      demo_request demo_world)
    = Inr (anthropic_response demo_anthropicResponse 0)"
    by (rule demo_anthropic_run)
  have "TotalTokens (Usage (anthropic_response demo_anthropicResponse 0))
      = PromptTokens (Usage (anthropic_response demo_anthropicResponse 0))
        + CompletionTokens (Usage (anthropic_response demo_anthropicResponse 0))"
    using run usage_total_by_adapter
      [where lib = demo_library and pa = "anthropic_NewProviderWithKey ''a-test''"
        and req = demo_request and w = demo_world
        and resp = "anthropic_response demo_anthropicResponse 0"]
    by blast
  then have a: "TotalTokens (Usage (anthropic_response demo_anthropicResponse 0)) = 12"
    by (simp add: anthropic_response_def demo_anthropicResponse_def)
  have orun: "fst (openai_Completion demo_library (openai_NewProviderWithKey ''sk-test'')
      demo_request demo_world)
    = Inr (openai_response demo_openAIResponse)"
    by (rule demo_openai_run)
  from orun usage_total_by_adapter
      [where lib = demo_library and po = "openai_NewProviderWithKey ''sk-test''"
        and req = demo_request and w = demo_world
        and resp = "openai_response demo_openAIResponse"]
  obtain r where "RawResponse (openai_response demo_openAIResponse) = RawOpenAI r"
    and "TotalTokens (Usage (openai_response demo_openAIResponse))
      = oaUsage_TotalTokens (oaResp_Usage r)"
    by blast
  then have "TotalTokens (Usage (openai_response demo_openAIResponse))
      = oaUsage_TotalTokens (oaResp_Usage demo_openAIResponse)"
    by (simp add: openai_response_def)
  with run a orun show ?thesis by simp
qed

section \<open>The stream of three OpenAI events\<close>

text \<open>
  The three events (the role alone, the text \<open>Hi\<close>, the text \<open> there\<close> with the finish
  reason) and the end sentinel, each sent as a data line. When every read ends at the end of
  a line, each event in a read of its own or all of them in one read, the successive calls
  of \<open>Recv\<close> return a chunk of empty content for the role, then the chunks \<open>Hi\<close> and
  \<open> there\<close>, then end-of-sequence, and again end-of-sequence ever after.
\<close>

lemma openai_stream_whole_lines:
  "map (map_sum id contents)
     (fst (Recv_times 6 demo_library (OpenAIStream (openai_new_stream demo_events)) demo_world))
   = [Inr [[]], Inr [''Hi''], Inr ['' there''], Inl io_EOF, Inl io_EOF, Inl io_EOF] \<and>
   filter (\<lambda>c. c \<noteq> [])
     (concat (map (case_sum (\<lambda>err. []) contents)
        (fst (Recv_times 6 demo_library (OpenAIStream (openai_new_stream demo_events))
                demo_world))))
   = [''Hi'', '' there''] \<and>
   map (map_sum id contents)
     (fst (Recv_times 6 demo_library
             (OpenAIStream (openai_new_stream demo_events_in_one_read)) demo_world))
   = [Inr [[]], Inr [''Hi''], Inr ['' there''], Inl io_EOF, Inl io_EOF, Inl io_EOF]"
  by code_simp

text \<open>
  When a read ends inside a line, \<^verbatim>\<open>ReadLine\<close> loses the beginning of the line: the bytes
  of a read without a line feed are gone once the next read has arrived.
\<close>

lemma ReadLine_loop_drops_partial_line:
  assumes "Index_newline d1 = None" "d1 \<noteq> []" "d2 \<noteq> []"
  shows "ReadLine_loop [] ((d1, None) # (d2, None) # rs) = ReadLine_loop d2 rs"
proof -
  have "ReadLine_loop [] ((d1, None) # (d2, None) # rs) = ReadLine_loop d1 ((d2, None) # rs)"
    by (subst ReadLine_loop.simps(2))
      (simp add: ReadBytes_newline_def failed_def assms del: ReadLine_loop.simps)
  also have "\<dots> = ReadLine_loop d2 rs"
    by (subst ReadLine_loop.simps(2))
      (simp add: ReadBytes_newline_def failed_def assms del: ReadLine_loop.simps)
  finally show ?thesis .
qed

text \<open>
  Claim C5. The claim is that the sequence of the three events and the sentinel yields the
  chunks \<open>Hi\<close> and \<open> there\<close> and then end-of-sequence. The code does not do so for every
  delivery of these bytes. With the end of a read inside the data line of the second event,
  the beginning of that line is lost, what is left of it is no data line, and \<open>Recv\<close> returns
  the chunk of the role, then \<open> there\<close>, then end-of-sequence: the chunk \<open>Hi\<close> never comes.
  Delivered one byte at a read, the same bytes yield no chunk at all.
\<close>

theorem openai_stream_split_line_loses_Hi:
  "concat (map fst demo_events_split) = concat (map fst demo_events) \<and>
   map (map_sum id contents)
     (fst (Recv_times 4 demo_library (OpenAIStream (openai_new_stream demo_events_split))
             demo_world))
   = [Inr [[]], Inr ['' there''], Inl io_EOF, Inl io_EOF] \<and>
   filter (\<lambda>c. c \<noteq> [])
     (concat (map (case_sum (\<lambda>err. []) contents)
        (fst (Recv_times 4 demo_library (OpenAIStream (openai_new_stream demo_events_split))
                demo_world))))
   = ['' there''] \<and>
   concat (map fst demo_events_bytewise) = concat (map fst demo_events) \<and>
   map (map_sum id contents)
     (fst (Recv_times 2 demo_library (OpenAIStream (openai_new_stream demo_events_bytewise))
             demo_world))
   = [Inl io_EOF, Inl io_EOF]"
  by code_simp

section \<open>A data line that does not decode\<close>

lemma HasPrefix_append: "HasPrefix s pre \<Longrightarrow> \<exists>rest. s = pre @ rest"
proof -
  assume "HasPrefix s pre"
  then have "take (length pre) s = pre" by (simp only: HasPrefix_def)
  then have "s = pre @ drop (length pre) s" by (metis append_take_drop_id)
  then show ?thesis ..
qed

lemma HasPrefix_data:
  "HasPrefix line ''data: '' \<Longrightarrow> length line \<noteq> 0 \<and> \<not> HasPrefix line '':''"
proof -
  assume "HasPrefix line ''data: ''"
  then obtain rest where "line = ''data: '' @ rest" using HasPrefix_append by blast
  then show ?thesis by (simp add: HasPrefix_def)
qed

lemma openai_Recv_line_undecodable:
  "HasPrefix line ''data: '' \<Longrightarrow> TrimPrefix line ''data: '' \<noteq> ''[DONE]'' \<Longrightarrow>
   Unmarshal_openAIStreamChunk lib (TrimPrefix line ''data: '') = None \<Longrightarrow>
   openai_Recv_line lib line s = Return (Inl ParseStreamFailed) s"
  using HasPrefix_data[of line] by (simp add: openai_Recv_line_def Let_def)

lemma anthropic_Recv_line_undecodable:
  "HasPrefix line ''data: '' \<Longrightarrow> TrimPrefix line ''data: '' \<noteq> ''[DONE]'' \<Longrightarrow>
   Unmarshal_anthropicEvent lib (TrimPrefix line ''data: '') = None \<Longrightarrow>
   anthropic_Recv_line lib line (s, w) = Return (Inl ParseStreamFailed) (s, w)"
  using HasPrefix_data[of line] by (simp add: anthropic_Recv_line_def Let_def)

lemma gemini_Recv_line_undecodable:
  "HasPrefix line ''data: '' \<Longrightarrow> TrimPrefix line ''data: '' \<noteq> ''[DONE]'' \<Longrightarrow>
   Unmarshal_geminiResponse lib (TrimPrefix line ''data: '') = None \<Longrightarrow>
   gemini_Recv_line lib line (s, w) =
     (if Contains (TrimPrefix line ''data: '') ''finishReason''
      then Return (Inl io_EOF) (s\<lparr>gS_streamFinished := True\<rparr>, w)
      else Continue (s, w))"
  using HasPrefix_data[of line] by (simp add: gemini_Recv_line_def Let_def)

text \<open>
  Against claim C4 as it is written. A Google stream reads a data line whose payload is an
  event cut off in the middle, which does not decode: \<open>Recv\<close> returns end-of-sequence, not
  an error, and the stream is over although a well-formed event follows. It reads a data
  line whose payload is JSON of the wrong shape, which does not decode either: \<open>Recv\<close> says
  nothing of it and returns the chunk of the next event.
\<close>

theorem gemini_undecodable_line_is_no_error:
  "Unmarshal_geminiResponse demo_library demo_cut_off = None \<and>
   map (map_sum id contents)
     (fst (Recv_times 2 demo_library
             (GeminiStream (gemini_new_stream [sse demo_cut_off, sse demo_gemini_body]))
             demo_world))
   = [Inl io_EOF, Inl io_EOF] \<and>
   Unmarshal_geminiResponse demo_library demo_wrong_shape = None \<and>
   map (map_sum id contents)
     (fst (Recv_times 2 demo_library
             (GeminiStream (gemini_new_stream [sse demo_wrong_shape, sse demo_gemini_body]))
             demo_world))
   = [Inr [''Hi''], Inl io_EOF]"
  by code_simp

text \<open>
  Claim C4, amended. When the loop of \<open>Recv\<close> reads a data line whose payload is not the end
  sentinel and does not decode: for the OpenAI and the Anthropic stream \<open>Recv\<close> returns the
  parse error; for the Google stream it never returns an error: if the payload contains the
  text \<open>finishReason\<close>, \<open>Recv\<close> marks the stream finished and returns end-of-sequence, and
  otherwise it skips the line and goes on reading. On a stream that is not finished, \<open>Recv\<close>
  is this loop.
\<close>

theorem undecodable_data_line:
  "(ReadLine (oaS_reader so) = (Inr line, r) \<and> HasPrefix line ''data: '' \<and>
    TrimPrefix line ''data: '' \<noteq> ''[DONE]'' \<and>
    Unmarshal_openAIStreamChunk lib (TrimPrefix line ''data: '') = None \<longrightarrow>
      openai_Recv_loop lib so = (Inl ParseStreamFailed, so\<lparr>oaS_reader := r\<rparr>)) \<and>
   (ReadLine (anS_reader sa) = (Inr line, r) \<and> HasPrefix line ''data: '' \<and>
    TrimPrefix line ''data: '' \<noteq> ''[DONE]'' \<and>
    Unmarshal_anthropicEvent lib (TrimPrefix line ''data: '') = None \<longrightarrow>
      anthropic_Recv_loop lib sa w = (Inl ParseStreamFailed, sa\<lparr>anS_reader := r\<rparr>, w)) \<and>
   (ReadLine (gS_reader sg) = (Inr line, r) \<and> HasPrefix line ''data: '' \<and>
    TrimPrefix line ''data: '' \<noteq> ''[DONE]'' \<and>
    Unmarshal_geminiResponse lib (TrimPrefix line ''data: '') = None \<longrightarrow>
      gemini_Recv_loop lib sg w =
        (if Contains (TrimPrefix line ''data: '') ''finishReason''
         then (Inl io_EOF, sg\<lparr>gS_reader := r, gS_streamFinished := True\<rparr>, w)
         else gemini_Recv_loop lib (sg\<lparr>gS_reader := r\<rparr>) w)) \<and>
   (\<not> oaS_streamFinished so \<longrightarrow> openai_Recv lib so = openai_Recv_loop lib so) \<and>
   (\<not> anS_streamFinished sa \<longrightarrow> anthropic_Recv lib sa w = anthropic_Recv_loop lib sa w) \<and>
   (\<not> gS_streamFinished sg \<longrightarrow> gemini_Recv lib sg w = gemini_Recv_loop lib sg w)"
proof (intro conjI impI)
  assume "ReadLine (oaS_reader so) = (Inr line, r) \<and> HasPrefix line ''data: '' \<and>
    TrimPrefix line ''data: '' \<noteq> ''[DONE]'' \<and>
    Unmarshal_openAIStreamChunk lib (TrimPrefix line ''data: '') = None"
  then show "openai_Recv_loop lib so = (Inl ParseStreamFailed, so\<lparr>oaS_reader := r\<rparr>)"
    by (simp add: openai_Recv_loop.simps[of lib so] openai_Recv_line_undecodable)
next
  assume "ReadLine (anS_reader sa) = (Inr line, r) \<and> HasPrefix line ''data: '' \<and>
    TrimPrefix line ''data: '' \<noteq> ''[DONE]'' \<and>
    Unmarshal_anthropicEvent lib (TrimPrefix line ''data: '') = None"
  then show "anthropic_Recv_loop lib sa w = (Inl ParseStreamFailed, sa\<lparr>anS_reader := r\<rparr>, w)"
    by (simp add: anthropic_Recv_loop.simps[of lib sa w] anthropic_Recv_line_undecodable)
next
  assume "ReadLine (gS_reader sg) = (Inr line, r) \<and> HasPrefix line ''data: '' \<and>
    TrimPrefix line ''data: '' \<noteq> ''[DONE]'' \<and>
    Unmarshal_geminiResponse lib (TrimPrefix line ''data: '') = None"
  then show "gemini_Recv_loop lib sg w =
        (if Contains (TrimPrefix line ''data: '') ''finishReason''
         then (Inl io_EOF, sg\<lparr>gS_reader := r, gS_streamFinished := True\<rparr>, w)
         else gemini_Recv_loop lib (sg\<lparr>gS_reader := r\<rparr>) w)"
    by (simp add: gemini_Recv_loop.simps[of lib sg w] gemini_Recv_line_undecodable)
qed (simp_all add: openai_Recv_def anthropic_Recv_def gemini_Recv_def)

lemma demo_cut_off_line:
  "ReadLine (oaS_reader (openai_new_stream [sse demo_cut_off]))
     = (Inr (''data: '' @ demo_cut_off), \<lparr>reader = [], buf = [CHR 0x0A]\<rparr>) \<and>
   HasPrefix (''data: '' @ demo_cut_off) ''data: '' \<and>
   TrimPrefix (''data: '' @ demo_cut_off) ''data: '' \<noteq> ''[DONE]'' \<and>
   Unmarshal_openAIStreamChunk demo_library (TrimPrefix (''data: '' @ demo_cut_off) ''data: '')
     = None"
  by code_simp

theorem undecodable_data_line_witness:
  "openai_Recv demo_library (openai_new_stream [sse demo_cut_off])
     = (Inl ParseStreamFailed,
        (openai_new_stream [sse demo_cut_off])
          \<lparr>oaS_reader := \<lparr>reader = [], buf = [CHR 0x0A]\<rparr>\<rparr>)"
proof -
  have fin: "\<not> oaS_streamFinished (openai_new_stream [sse demo_cut_off])"
    by (simp add: openai_new_stream_def)
  show ?thesis
    using demo_cut_off_line fin
      undecodable_data_line [where so = "openai_new_stream [sse demo_cut_off]"
        and line = "''data: '' @ demo_cut_off" and r = "\<lparr>reader = [], buf = [CHR 0x0A]\<rparr>"
        and lib = demo_library]
    by simp
qed

section \<open>The token limit the Anthropic adapter sends\<close>

lemma post_requests:
  "requests (snd (post lib url hs m w)) = requests w \<or>
   (\<exists>body. m = Some body \<and>
      requests (snd (post lib url hs m w))
        = requests w @ [\<lparr>Method = ''POST'', URL = url, Header = map_of (rev hs), Body = body\<rparr>])"
  by (auto simp: post_def client_Do_def split: option.splits sum.splits prod.splits)

lemma post_sends:
  "url_ok lib url \<Longrightarrow>
   requests (snd (post lib url hs (Some body) w))
     = requests w @ [\<lparr>Method = ''POST'', URL = url, Header = map_of (rev hs), Body = body\<rparr>]"
  by (auto simp: post_def client_Do_def split: option.splits sum.splits prod.splits)

lemma marshal_anthropicRequest_max_tokens:
  "marshal_anthropicRequest (anthropic_request stream req) = Some body \<Longrightarrow>
   json_member body ''max_tokens'' = max_tokens_to_send req"
  by (auto simp: marshal_anthropicRequest_def anthropic_request_def json_member_def object_def
      omitempty_int_def max_tokens_to_send_def split: if_splits prod.splits option.splits)

lemma marshal_anthropicRequest_Some:
  "finite_or_nil (Temperature req) \<Longrightarrow> finite_or_nil (TopP req) \<Longrightarrow>
   \<exists>body. marshal_anthropicRequest (anthropic_request stream req) = Some body"
  by (auto simp: marshal_anthropicRequest_def anthropic_request_def finite_or_nil_def
      float64_is_finite_def split: prod.splits option.splits)

lemma anthropic_Completion_requests:
  "requests (snd (anthropic_Completion lib p req w))
     = (if anthropic_apiKey p = [] then requests w
        else requests (snd (post lib (anthropic_endpoint p) (anthropic_headers False p)
               (marshal_anthropicRequest (anthropic_request False req)) w)))"
  by (auto simp: anthropic_Completion_def time_Now_def
      split: prod.splits sum.splits option.splits)

lemma anthropic_CompletionStream_requests:
  "requests (snd (anthropic_CompletionStream lib p req w))
     = (if anthropic_apiKey p = [] then requests w
        else requests (snd (post lib (anthropic_endpoint p) (anthropic_headers True p)
               (marshal_anthropicRequest (anthropic_request True req)) w)))"
  by (auto simp: anthropic_CompletionStream_def
      split: prod.splits sum.splits option.splits)

lemma anthropic_sent:
  "requests (snd (post lib url hs (marshal_anthropicRequest (anthropic_request stream req)) w))
     = requests w \<or>
   (\<exists>r. requests (snd (post lib url hs
            (marshal_anthropicRequest (anthropic_request stream req)) w)) = requests w @ [r] \<and>
        json_member (Body r) ''max_tokens'' = max_tokens_to_send req)"
  using post_requests[of lib url hs "marshal_anthropicRequest (anthropic_request stream req)" w]
    marshal_anthropicRequest_max_tokens[of stream req]
  by auto

lemma anthropic_sends:
  assumes "url_ok lib url" "finite_or_nil (Temperature req)" "finite_or_nil (TopP req)"
  shows "\<exists>r. requests (snd (post lib url hs
            (marshal_anthropicRequest (anthropic_request stream req)) w)) = requests w @ [r] \<and>
        json_member (Body r) ''max_tokens'' = max_tokens_to_send req"
proof -
  from marshal_anthropicRequest_Some[OF assms(2,3)]
  obtain body where b: "marshal_anthropicRequest (anthropic_request stream req) = Some body"
    by blast
  show ?thesis
    using post_sends[OF assms(1), of hs body w] marshal_anthropicRequest_max_tokens[OF b] b
    by simp
qed

lemma demo_resolve_anthropic:
  "getProviderForModel demo_providers ''anthropic/claude-2.1''
     = Inr (Anthropic (anthropic_NewProviderWithKey ''a-test''), ''claude-2.1'')"
  by (simp add: getProviderForModel_def parseModelIdentifier_def SplitN_slash_2_def
      demo_providers_def RegisterProvider_def anthropic_SupportsModel_def
      anthropic_NewProviderWithKey_def)

text \<open>
  Against claim C10 as it is written: the caller supplies the max-tokens option with the
  value 0. The adapter makes one request, for \<open>Completion\<close> and for \<open>CompletionStream\<close>, and
  its JSON body has no member \<open>max_tokens\<close>: the field is tagged \<^verbatim>\<open>omitempty\<close>.
\<close>

theorem anthropic_zero_max_tokens_left_out:
  "MaxTokens (apply_options [WithMaxTokens 0] demo_request) = Some 0 \<and>
   map (\<lambda>r. json_member (Body r) ''max_tokens'')
     (requests (snd (Completion demo_library demo_providers ''anthropic/claude-2.1''
                       demo_messages [WithMaxTokens 0] demo_world)))
   = [None] \<and>
   map (\<lambda>r. json_member (Body r) ''max_tokens'')
     (requests (snd (CompletionStream demo_library demo_providers ''anthropic/claude-2.1''
                       demo_messages [WithMaxTokens 0] demo_world)))
   = [None]"
proof -
  let ?p = "anthropic_NewProviderWithKey ''a-test''"
  let ?req = "\<lambda>stream. apply_options [WithMaxTokens 0]
      (zero_CompletionRequest\<lparr>Model := ''claude-2.1'', Messages := demo_messages,
         Stream := stream\<rparr>)"
  have pre: "anthropic_apiKey ?p \<noteq> []" "url_ok demo_library (anthropic_endpoint ?p)"
      "requests demo_world = []"
    by (simp_all add: anthropic_NewProviderWithKey_def demo_library_def demo_world_def)
  have req: "finite_or_nil (Temperature (?req stream))" "finite_or_nil (TopP (?req stream))"
      "max_tokens_to_send (?req stream) = None" for stream
    by (simp_all add: WithMaxTokens_def zero_CompletionRequest_def finite_or_nil_def
        max_tokens_to_send_def)
  have c: "Completion demo_library demo_providers ''anthropic/claude-2.1''
        demo_messages [WithMaxTokens 0] demo_world
      = anthropic_Completion demo_library ?p (?req False) demo_world"
    by (simp add: Completion_def demo_resolve_anthropic zero_CompletionRequest_def)
  have cs: "CompletionStream demo_library demo_providers ''anthropic/claude-2.1''
        demo_messages [WithMaxTokens 0] demo_world
      = map_prod (map_sum id AnthropicStream) id
          (anthropic_CompletionStream demo_library ?p (?req True) demo_world)"
    by (simp add: CompletionStream_def demo_resolve_anthropic zero_CompletionRequest_def
        split: prod.splits)
  have "\<exists>r. requests (snd (anthropic_Completion demo_library ?p (?req False) demo_world))
        = requests demo_world @ [r] \<and>
      json_member (Body r) ''max_tokens'' = max_tokens_to_send (?req False)"
    using anthropic_sends[OF pre(2) req(1,2), of "anthropic_headers False ?p" False False
        demo_world] pre(1)
    by (simp add: anthropic_Completion_requests)
  then have one: "map (\<lambda>r. json_member (Body r) ''max_tokens'')
      (requests (snd (anthropic_Completion demo_library ?p (?req False) demo_world))) = [None]"
    using pre(3) req(3) by auto
  have "\<exists>r. requests (snd (anthropic_CompletionStream demo_library ?p (?req True) demo_world))
        = requests demo_world @ [r] \<and>
      json_member (Body r) ''max_tokens'' = max_tokens_to_send (?req True)"
    using anthropic_sends[OF pre(2) req(1,2), of "anthropic_headers True ?p" True True
        demo_world] pre(1)
    by (simp add: anthropic_CompletionStream_requests)
  then have two: "map (\<lambda>r. json_member (Body r) ''max_tokens'')
      (requests (snd (anthropic_CompletionStream demo_library ?p (?req True) demo_world)))
      = [None]"
    using pre(3) req(3) by auto
  have "MaxTokens (apply_options [WithMaxTokens 0] demo_request) = Some 0"
    by (simp add: WithMaxTokens_def)
  then show ?thesis using one two by (simp add: c cs)
qed

text \<open>
  Claim C10, amended. The request struct the Anthropic adapter builds has \<^verbatim>\<open>MaxTokens\<close> 4096
  when the caller supplied no max-tokens option, and the caller's value otherwise.
  \<open>Completion\<close> and \<open>CompletionStream\<close> make at most one request, and exactly one when the
  credential is set, the endpoint is a valid URL and the temperature and top-p are finite;
  its body carries \<open>max_tokens\<close> 4096 when the caller supplied none, the caller's value when
  it is not 0, and no \<open>max_tokens\<close> at all when the caller supplied 0.
\<close>

theorem anthropic_max_tokens_sent:
  "anReq_MaxTokens (anthropic_request stream req)
     = (case MaxTokens req of None \<Rightarrow> 4096 | Some n \<Rightarrow> n) \<and>
   (requests (snd (anthropic_Completion lib p req w)) = requests w \<or>
    (\<exists>r. requests (snd (anthropic_Completion lib p req w)) = requests w @ [r] \<and>
         json_member (Body r) ''max_tokens'' = max_tokens_to_send req)) \<and>
   (requests (snd (anthropic_CompletionStream lib p req w)) = requests w \<or>
    (\<exists>r. requests (snd (anthropic_CompletionStream lib p req w)) = requests w @ [r] \<and>
         json_member (Body r) ''max_tokens'' = max_tokens_to_send req)) \<and>
   (anthropic_apiKey p \<noteq> [] \<and> url_ok lib (anthropic_endpoint p) \<and>
    finite_or_nil (Temperature req) \<and> finite_or_nil (TopP req) \<longrightarrow>
      (\<exists>r. requests (snd (anthropic_Completion lib p req w)) = requests w @ [r] \<and>
           json_member (Body r) ''max_tokens'' = max_tokens_to_send req) \<and>
      (\<exists>r. requests (snd (anthropic_CompletionStream lib p req w)) = requests w @ [r] \<and>
           json_member (Body r) ''max_tokens'' = max_tokens_to_send req)) \<and>
   max_tokens_to_send (req\<lparr>MaxTokens := None\<rparr>) = Some (JInt 4096) \<and>
   (n \<noteq> 0 \<longrightarrow> max_tokens_to_send (req\<lparr>MaxTokens := Some n\<rparr>) = Some (JInt n)) \<and>
   max_tokens_to_send (req\<lparr>MaxTokens := Some 0\<rparr>) = None"
proof (intro conjI impI)
  show "anReq_MaxTokens (anthropic_request stream req)
     = (case MaxTokens req of None \<Rightarrow> 4096 | Some n \<Rightarrow> n)"
    by (simp add: anthropic_request_def split: prod.splits)
next
  show "requests (snd (anthropic_Completion lib p req w)) = requests w \<or>
    (\<exists>r. requests (snd (anthropic_Completion lib p req w)) = requests w @ [r] \<and>
         json_member (Body r) ''max_tokens'' = max_tokens_to_send req)"
    using anthropic_sent[of lib "anthropic_endpoint p" "anthropic_headers False p" False req w]
    by (simp add: anthropic_Completion_requests)
next
  show "requests (snd (anthropic_CompletionStream lib p req w)) = requests w \<or>
    (\<exists>r. requests (snd (anthropic_CompletionStream lib p req w)) = requests w @ [r] \<and>
         json_member (Body r) ''max_tokens'' = max_tokens_to_send req)"
    using anthropic_sent[of lib "anthropic_endpoint p" "anthropic_headers True p" True req w]
    by (simp add: anthropic_CompletionStream_requests)
next
  assume a: "anthropic_apiKey p \<noteq> [] \<and> url_ok lib (anthropic_endpoint p) \<and>
    finite_or_nil (Temperature req) \<and> finite_or_nil (TopP req)"
  then show "\<exists>r. requests (snd (anthropic_Completion lib p req w)) = requests w @ [r] \<and>
           json_member (Body r) ''max_tokens'' = max_tokens_to_send req"
    using anthropic_sends[of lib "anthropic_endpoint p" req "anthropic_headers False p" False w]
    by (simp add: anthropic_Completion_requests)
  from a show "\<exists>r. requests (snd (anthropic_CompletionStream lib p req w)) = requests w @ [r] \<and>
           json_member (Body r) ''max_tokens'' = max_tokens_to_send req"
    using anthropic_sends[of lib "anthropic_endpoint p" req "anthropic_headers True p" True w]
    by (simp add: anthropic_CompletionStream_requests)
qed (simp_all add: max_tokens_to_send_def)

theorem anthropic_max_tokens_sent_witness:
  "map (\<lambda>r. json_member (Body r) ''max_tokens'')
     (requests (snd (anthropic_Completion demo_library (anthropic_NewProviderWithKey ''a-test'')
                       demo_request demo_world)))
   = [Some (JInt 4096)]"
proof -
  have pre: "anthropic_apiKey (anthropic_NewProviderWithKey ''a-test'') \<noteq> [] \<and>
      url_ok demo_library (anthropic_endpoint (anthropic_NewProviderWithKey ''a-test'')) \<and>
      finite_or_nil (Temperature demo_request) \<and> finite_or_nil (TopP demo_request)"
    by (simp add: anthropic_NewProviderWithKey_def demo_library_def demo_request_def
        zero_CompletionRequest_def finite_or_nil_def)
  have w0: "requests demo_world = []"
    by (simp add: demo_world_def)
  have mt: "max_tokens_to_send demo_request = Some (JInt 4096)"
    by (simp add: max_tokens_to_send_def demo_request_def zero_CompletionRequest_def)
  from pre anthropic_max_tokens_sent [where lib = demo_library
      and p = "anthropic_NewProviderWithKey ''a-test''" and req = demo_request
      and w = demo_world]
  have "\<exists>r. requests (snd (anthropic_Completion demo_library
          (anthropic_NewProviderWithKey ''a-test'') demo_request demo_world))
        = requests demo_world @ [r] \<and>
      json_member (Body r) ''max_tokens'' = max_tokens_to_send demo_request"
    by blast
  then obtain r where "requests (snd (anthropic_Completion demo_library
          (anthropic_NewProviderWithKey ''a-test'') demo_request demo_world)) = [r]"
      and "json_member (Body r) ''max_tokens'' = Some (JInt 4096)"
    using w0 mt by auto
  then show ?thesis by simp
qed

section \<open>Properties of the router\<close>

lemma try_candidates_attempts:
  "try_candidates lib reg cs messages opts w = (ro, attempts, w') \<Longrightarrow>
     Completion_each lib reg (map fst attempts) messages opts w = (map snd attempts, w') \<and>
     map fst attempts = take (length attempts) (map ModelID cs) \<and>
     length attempts \<le> length cs \<and>
     (\<forall>a \<in> set (butlast attempts). isl (snd a)) \<and>
     (case ro of
        Some resp \<Rightarrow> attempts \<noteq> [] \<and> snd (last attempts) = Inr resp
      | None \<Rightarrow> length attempts = length cs \<and> (\<forall>a \<in> set attempts. isl (snd a)))"
proof (induction cs arbitrary: w ro attempts w')
  case Nil
  then show ?case by simp
next
  case (Cons c cs)
  obtain res w1 where c1: "Completion lib reg (ModelID c) messages opts w = (res, w1)"
    by (cases "Completion lib reg (ModelID c) messages opts w")
  show ?case
  proof (cases res)
    case (Inr resp)
    with Cons.prems c1 show ?thesis by auto
  next
    case (Inl err)
    obtain ro2 at2 w2 where t: "try_candidates lib reg cs messages opts w1 = (ro2, at2, w2)"
      by (cases "try_candidates lib reg cs messages opts w1")
    from Cons.prems c1 Inl t
    have eq: "ro = ro2" "attempts = (ModelID c, Inl err) # at2" "w' = w2" by simp_all
    note ih = Cons.IH[OF t]
    have bl: "\<forall>a \<in> set (butlast ((ModelID c, Inl err) # at2)). isl (snd a)"
      using ih by (cases at2) auto
    show ?thesis
      using ih c1 Inl bl unfolding eq
      by (cases ro2) (auto split: option.splits)
  qed
qed

lemma Completion_each_snoc:
  "Completion_each lib reg ms messages opts w = (rs, w1) \<Longrightarrow>
   Completion lib reg m messages opts w1 = (res, w2) \<Longrightarrow>
   Completion_each lib reg (ms @ [m]) messages opts w = (rs @ [res], w2)"
  by (induction ms arbitrary: w rs) (auto split: prod.splits)

text \<open>
  Claim C1. The attempts of \<open>Route\<close> are an initial segment of the candidates in
  priority order followed by the fallback, each attempt being a call of \<open>Completion\<close> in the
  world the earlier attempts left; every attempt but the last failed, and the result of the
  call is the result of the last attempt. If the attempts stop before the fallback, the
  result is a response: the first candidate that succeeds is returned and nothing after it
  is invoked. Otherwise every candidate has failed (or there was none, the list being empty
  or absent), the fallback is the last attempt and the only one of its kind, and its result,
  response or error, is the result of the call. The candidates are the routes of the task
  type sorted by descending priority, routes of equal priority staying in the order of
  insertion.
\<close>

theorem Route_first_success_or_fallback:
  "(let ids = map ModelID (candidates r taskType) @ [fallbackModel r];
        (res, attempts, w') = Route_attempts lib reg r taskType messages opts w
    in attempts \<noteq> [] \<and> length attempts \<le> length ids \<and>
       map fst attempts = take (length attempts) ids \<and>
       Completion_each lib reg (map fst attempts) messages opts w = (map snd attempts, w') \<and>
       (\<forall>a \<in> set (butlast attempts). isl (snd a)) \<and>
       res = snd (last attempts) \<and>
       (length attempts < length ids \<longrightarrow> \<not> isl res) \<and>
       Route lib reg r taskType messages opts w = (res, w') \<and>
       RouteCompletion lib reg r taskType messages opts w = (res, w')) \<and>
   (routes r taskType = None \<or> routes r taskType = Some [] \<longrightarrow> candidates r taskType = []) \<and>
   (routes r taskType = Some l \<longrightarrow>
      sorted (map (\<lambda>c. - Priority c) (candidates r taskType)) \<and>
      set (candidates r taskType) = set l \<and>
      length (candidates r taskType) = length l \<and>
      (\<forall>k. filter (\<lambda>c. Priority c = k) (candidates r taskType)
             = filter (\<lambda>c. Priority c = k) l))"
proof (intro conjI)
  obtain ro at w1 where t:
    "try_candidates lib reg (candidates r taskType) messages opts w = (ro, at, w1)"
    by (cases "try_candidates lib reg (candidates r taskType) messages opts w")
  note facts = try_candidates_attempts[OF t]
  show "let ids = map ModelID (candidates r taskType) @ [fallbackModel r];
        (res, attempts, w') = Route_attempts lib reg r taskType messages opts w
    in attempts \<noteq> [] \<and> length attempts \<le> length ids \<and>
       map fst attempts = take (length attempts) ids \<and>
       Completion_each lib reg (map fst attempts) messages opts w = (map snd attempts, w') \<and>
       (\<forall>a \<in> set (butlast attempts). isl (snd a)) \<and>
       res = snd (last attempts) \<and>
       (length attempts < length ids \<longrightarrow> \<not> isl res) \<and>
       Route lib reg r taskType messages opts w = (res, w') \<and>
       RouteCompletion lib reg r taskType messages opts w = (res, w')"
  proof (cases ro)
    case (Some resp)
    then have ra: "Route_attempts lib reg r taskType messages opts w = (Inr resp, at, w1)"
      using t by (simp add: Route_attempts_def)
    let ?cs = "candidates r taskType"
    note facts' = facts[unfolded Some option.case]
    from facts' have ne: "at \<noteq> []" and last: "snd (last at) = Inr resp"
      and len: "length at \<le> length ?cs"
      and ids: "map fst at = take (length at) (map ModelID ?cs)"
      and each: "Completion_each lib reg (map fst at) messages opts w = (map snd at, w1)"
      and fails: "\<forall>a \<in> set (butlast at). isl (snd a)"
      by blast+
    have h2: "length at \<le> length (map ModelID ?cs @ [fallbackModel r])"
      using len by simp
    have h3: "map fst at = take (length at) (map ModelID ?cs @ [fallbackModel r])"
      using ids len by simp
    have h6: "Inr resp = snd (last at)" using last by simp
    have h7: "length at < length (map ModelID ?cs @ [fallbackModel r]) \<longrightarrow>
        \<not> isl (Inr resp :: error + CompletionResponse)"
      by simp
    have h8: "Route lib reg r taskType messages opts w = (Inr resp, w1)"
      by (simp add: Route_def ra)
    have h9: "RouteCompletion lib reg r taskType messages opts w = (Inr resp, w1)"
      by (simp add: RouteCompletion_def h8)
    show ?thesis
      unfolding Let_def ra prod.case
      using ne h2 h3 each fails h6 h7 h8 h9 by blast
  next
    case None
    obtain res w2 where f: "Completion lib reg (fallbackModel r) messages opts w1 = (res, w2)"
      by (cases "Completion lib reg (fallbackModel r) messages opts w1")
    have ra: "Route_attempts lib reg r taskType messages opts w
        = (res, at @ [(fallbackModel r, res)], w2)"
      using t None f by (simp add: Route_attempts_def)
    let ?cs = "candidates r taskType"
    let ?at = "at @ [(fallbackModel r, res)]"
    note facts' = facts[unfolded None option.case]
    from facts' have len: "length at = length ?cs"
      and fails: "\<forall>a \<in> set at. isl (snd a)"
      and ids: "map fst at = take (length at) (map ModelID ?cs)"
      and each: "Completion_each lib reg (map fst at) messages opts w = (map snd at, w1)"
      by blast+
    have h1: "?at \<noteq> []" by simp
    have h2: "length ?at \<le> length (map ModelID ?cs @ [fallbackModel r])"
      using len by simp
    have h3: "map fst ?at = take (length ?at) (map ModelID ?cs @ [fallbackModel r])"
      using ids len by simp
    have h4: "Completion_each lib reg (map fst ?at) messages opts w = (map snd ?at, w2)"
      using Completion_each_snoc[OF each f] by simp
    have h5: "\<forall>a \<in> set (butlast ?at). isl (snd a)"
      using fails by simp
    have h6: "res = snd (last ?at)" by simp
    have h7: "length ?at < length (map ModelID ?cs @ [fallbackModel r]) \<longrightarrow> \<not> isl res"
      using len by simp
    have h8: "Route lib reg r taskType messages opts w = (res, w2)"
      by (simp add: Route_def ra)
    have h9: "RouteCompletion lib reg r taskType messages opts w = (res, w2)"
      by (simp add: RouteCompletion_def h8)
    show ?thesis
      unfolding Let_def ra prod.case
      using h1 h2 h3 h4 h5 h6 h7 h8 h9 by blast
  qed
next
  show "routes r taskType = None \<or> routes r taskType = Some [] \<longrightarrow> candidates r taskType = []"
    by (auto simp: candidates_def)
next
  show "routes r taskType = Some l \<longrightarrow>
      sorted (map (\<lambda>c. - Priority c) (candidates r taskType)) \<and>
      set (candidates r taskType) = set l \<and>
      length (candidates r taskType) = length l \<and>
      (\<forall>k. filter (\<lambda>c. Priority c = k) (candidates r taskType)
             = filter (\<lambda>c. Priority c = k) l)"
  proof
    assume l: "routes r taskType = Some l"
    have "filter (\<lambda>c. Priority c = k) (sort_key (\<lambda>c. - Priority c) l)
        = filter (\<lambda>c. Priority c = k) l" for k
      using sort_key_stable[of "\<lambda>c. - Priority c" "- k" l] by simp
    then show "sorted (map (\<lambda>c. - Priority c) (candidates r taskType)) \<and>
      set (candidates r taskType) = set l \<and>
      length (candidates r taskType) = length l \<and>
      (\<forall>k. filter (\<lambda>c. Priority c = k) (candidates r taskType)
             = filter (\<lambda>c. Priority c = k) l)"
      using l by (simp add: candidates_def)
  qed
qed

lemma demo_route_attempts:
  "map fst (fst (snd (Route_attempts demo_library demo_providers_without_openai_key demo_router
       ''general'' demo_messages [] demo_world)))
     = [''openai/gpt-4o'', ''anthropic/claude-2.1''] \<and>
   map (\<lambda>a. isl (snd a)) (fst (snd (Route_attempts demo_library
       demo_providers_without_openai_key demo_router ''general'' demo_messages [] demo_world)))
     = [True, False] \<and>
   map_sum id Provider (snd (last (fst (snd (Route_attempts demo_library
       demo_providers_without_openai_key demo_router ''general'' demo_messages [] demo_world)))))
     = Inr ''anthropic''"
  by code_simp

theorem Route_first_success_or_fallback_witness:
  "map fst (fst (snd (Route_attempts demo_library demo_providers_without_openai_key demo_router
       ''general'' demo_messages [] demo_world)))
     = [''openai/gpt-4o'', ''anthropic/claude-2.1''] \<and>
   map (\<lambda>a. isl (snd a)) (fst (snd (Route_attempts demo_library
       demo_providers_without_openai_key demo_router ''general'' demo_messages [] demo_world)))
     = [True, False] \<and>
   map_sum id Provider (fst (RouteCompletion demo_library demo_providers_without_openai_key
       demo_router ''general'' demo_messages [] demo_world))
     = Inr ''anthropic''"
proof -
  obtain res attempts w' where ra:
    "Route_attempts demo_library demo_providers_without_openai_key demo_router
       ''general'' demo_messages [] demo_world = (res, attempts, w')"
    by (cases "Route_attempts demo_library demo_providers_without_openai_key demo_router
       ''general'' demo_messages [] demo_world")
  from ra Route_first_success_or_fallback [where lib = demo_library
      and reg = demo_providers_without_openai_key and r = demo_router
      and taskType = "''general''" and messages = demo_messages and opts = "[]"
      and w = demo_world]
  have "res = snd (last attempts)"
    and "RouteCompletion demo_library demo_providers_without_openai_key demo_router
       ''general'' demo_messages [] demo_world = (res, w')"
    by (simp_all add: Let_def)
  then have "fst (RouteCompletion demo_library demo_providers_without_openai_key demo_router
        ''general'' demo_messages [] demo_world)
      = snd (last (fst (snd (Route_attempts demo_library demo_providers_without_openai_key
          demo_router ''general'' demo_messages [] demo_world))))"
    using ra by simp
  then show ?thesis using demo_route_attempts by simp
qed

end
